theory Spec2Isabelle
  imports Main
begin

section \<open>Time stamps as the store keeps them\<close>

text \<open>
  The store keeps every time stamp as text, and two formats meet in it:
  \<^item> SQLite's \<^verbatim>\<open>CURRENT_TIMESTAMP\<close>, \<^verbatim>\<open>YYYY-MM-DD HH:MM:SS\<close> (UTC, whole seconds), also
    the day window \<^verbatim>\<open>toISOString().substr(0, 10) + ' 00:00:00'\<close>;
  \<^item> JavaScript's \<^verbatim>\<open>Date.toISOString()\<close>, \<^verbatim>\<open>YYYY-MM-DDTHH:MM:SS.sssZ\<close> (UTC, milliseconds).

  A text is modelled by its format and the instant it denotes: \<open>SqlText s\<close> is the first
  format for epoch second \<open>s\<close>, \<open>IsoText m\<close> the second for epoch millisecond \<open>m\<close>.
  Both are fixed-width and zero-padded for the years 0000 to 9999, so two texts are the same
  string exactly when format and instant agree, and SQLite's \<^verbatim>\<open>BINARY\<close> comparison of two
  texts (bytewise, left to right) is: first the ten characters of the UTC date, then
  character eleven, a space (0x20) in the first format and a \<^verbatim>\<open>T\<close> (0x54) in the second,
  then the time of day.
\<close>

datatype timestamp_text = SqlText int | IsoText int

fun utc_day :: "timestamp_text \<Rightarrow> int" where
  "utc_day (SqlText s) = s div 86400"
| "utc_day (IsoText m) = m div 86400000"

fun separator :: "timestamp_text \<Rightarrow> nat" where
  "separator (SqlText s) = 32"
| "separator (IsoText m) = 84"

fun instant :: "timestamp_text \<Rightarrow> int" where
  "instant (SqlText s) = s"
| "instant (IsoText m) = m"

definition text_less :: "timestamp_text \<Rightarrow> timestamp_text \<Rightarrow> bool" where
  "text_less a b \<longleftrightarrow>
     utc_day a < utc_day b \<or>
     (utc_day a = utc_day b \<and>
        (separator a < separator b \<or> (separator a = separator b \<and> instant a < instant b)))"

text \<open>\<^verbatim>\<open>CURRENT_TIMESTAMP\<close> and \<^verbatim>\<open>new Date(ms).toISOString()\<close> at the clock reading
  \<open>now\<close> (milliseconds since the epoch, as \<^verbatim>\<open>Date.now()\<close> gives it).\<close>

definition CURRENT_TIMESTAMP :: "int \<Rightarrow> timestamp_text" where
  "CURRENT_TIMESTAMP now = SqlText (now div 1000)"

definition toISOString :: "int \<Rightarrow> timestamp_text" where
  "toISOString ms = IsoText ms"

section \<open>The tables of \<^verbatim>\<open>queue-database.js\<close>\<close>

datatype job_state = queued | processing | succeeded | failed | dead

record job =
  job_id :: string
  file_id :: string
  dedupe_key :: string
  content_hash :: string
  payload_json :: string
  priority :: int
  state :: job_state
  attempts :: int
  max_attempts :: int
  error :: "string option"
  result :: "string option"
  created_at :: timestamp_text
  updated_at :: timestamp_text
  locked_at :: "timestamp_text option"
  worker_id :: "string option"

record provider =
  provider_id :: string
  provider_name :: string
  api_key :: string
  provider_priority :: int
  provider_enabled :: bool

record model =
  model_id :: string
  model_provider_id :: string
  model_name :: string
  per_minute_limit :: int
  per_day_limit :: int
  model_enabled :: bool

record job_attempt =
  attempt_id :: int
  attempt_job_id :: string
  attempt_no :: int
  attempt_provider_id :: "string option"
  attempt_model_id :: "string option"
  finished_at :: timestamp_text
  success :: bool
  attempt_error :: "string option"

datatype period = minute | day

record rate_counter =
  counter_id :: int
  counter_model_id :: string
  counter_period :: period
  window_start :: timestamp_text
  used_count :: int

record backoff =
  backoff_provider_id :: string
  until :: timestamp_text
  reason :: string

text \<open>The database: every table as the list of its rows, in rowid order.\<close>

record db =
  providers :: "provider list"
  models :: "model list"
  jobs :: "job list"
  job_attempts :: "job_attempt list"
  rate_counters :: "rate_counter list"
  provider_backoff :: "backoff list"

text \<open>A JavaScript error object (the fields the code reads), and how a promise ends.
  \<open>Uncaught\<close> is an exception thrown inside a database callback: nothing catches it and the
  promise is never settled.\<close>

record js_error =
  message :: string
  code :: "string option"
  status :: "int option"

datatype 'a outcome = Resolve 'a | Reject js_error | Uncaught string

definition Error :: "string \<Rightarrow> js_error" where
  "Error msg = \<lparr>message = msg, code = None, status = None\<rparr>"

definition SQLITE_CONSTRAINT :: "string \<Rightarrow> js_error" where
  "SQLITE_CONSTRAINT msg = \<lparr>message = msg, code = Some ''SQLITE_CONSTRAINT'', status = None\<rparr>"

text \<open>\<^verbatim>\<open>INTEGER PRIMARY KEY AUTOINCREMENT\<close>: one more than the largest rowid (no row is ever
  deleted).\<close>

definition next_rowid :: "int list \<Rightarrow> int" where
  "next_rowid ids = foldr max ids 0 + 1"

section \<open>Rate limiting: \<^verbatim>\<open>checkAndIncrementRateLimit\<close>\<close>

record rate_check =
  allowed :: bool
  count :: int
  limit :: "int option"

definition windowStart :: "period \<Rightarrow> int \<Rightarrow> timestamp_text" where
  "windowStart p now =
     (if p = minute then toISOString ((now div 60000) * 60000)
      else SqlText ((now div 86400000) * 86400))"

definition counter_matches :: "string \<Rightarrow> period \<Rightarrow> timestamp_text \<Rightarrow> rate_counter \<Rightarrow> bool" where
  "counter_matches modelId p ws c \<longleftrightarrow>
     counter_model_id c = modelId \<and> counter_period c = p \<and> window_start c = ws"

definition bump_counter :: "int \<Rightarrow> rate_counter \<Rightarrow> rate_counter" where
  "bump_counter cid c = (if counter_id c = cid then c\<lparr>used_count := used_count c + 1\<rparr> else c)"

definition checkAndIncrementRateLimit ::
  "db \<Rightarrow> int \<Rightarrow> string \<Rightarrow> period \<Rightarrow> rate_check outcome \<times> db" where
  "checkAndIncrementRateLimit d now modelId p =
     (let ws = windowStart p now in
      case find (counter_matches modelId p ws) (rate_counters d) of
        None \<Rightarrow>
          (if \<exists>m \<in> set (models d). model_id m = modelId
           then (Resolve \<lparr>allowed = True, count = 1, limit = None\<rparr>,
                 d\<lparr>rate_counters := rate_counters d @
                    [\<lparr>counter_id = next_rowid (map counter_id (rate_counters d)),
                      counter_model_id = modelId, counter_period = p,
                      window_start = ws, used_count = 1\<rparr>]\<rparr>)
           else (Reject (SQLITE_CONSTRAINT ''FOREIGN KEY constraint failed''), d))
      | Some counter \<Rightarrow>
          (case find (\<lambda>m. model_id m = modelId) (models d) of
             None \<Rightarrow> (Uncaught ''TypeError: Cannot read properties of undefined'', d)
           | Some m \<Rightarrow>
               (let lim = (if p = minute then per_minute_limit m else per_day_limit m) in
                if used_count counter \<ge> lim
                then (Resolve \<lparr>allowed = False, count = used_count counter, limit = Some lim\<rparr>, d)
                else (Resolve \<lparr>allowed = True, count = used_count counter + 1, limit = None\<rparr>,
                      d\<lparr>rate_counters := map (bump_counter (counter_id counter)) (rate_counters d)\<rparr>))))"


section \<open>Payloads: JSON values and \<^verbatim>\<open>JSON.stringify\<close>\<close>

text \<open>
  A payload as the ingress hands it over: a parsed JSON value. An object carries its
  properties in the order \<^verbatim>\<open>Object.keys\<close> enumerates them, which for keys that are not
  array indices is the order of insertion. Strings are byte strings.

  A number is kept the way \<^verbatim>\<open>Number::toString\<close> of ECMAScript reads a finite double: its
  sign, the digits \<open>s\<close> of the shortest decimal that denotes it, and the position \<open>n\<close> of
  the decimal point, so that its magnitude is \<open>0.s \<times> 10\<^sup>n\<close>. The integer 42 is the digits 42
  with the point at 2, one half the digit 5 with the point at 0, and \<open>2\<^sup>6\<^sup>3\<close> the digits
  9223372036854776 with the point at 19. The digits 0 are the number zero.
\<close>

record js_number =
  negative :: bool
  digits :: nat
  point :: int

datatype json =
    JNull
  | JBool bool
  | JNumber js_number
  | JString string
  | JArray "json list"
  | JObject "(string \<times> json) list"

definition hexdigit :: "nat \<Rightarrow> char" where
  "hexdigit v = ''0123456789abcdef'' ! v"

definition decimal_digit :: "nat \<Rightarrow> char" where
  "decimal_digit v = ''0123456789'' ! v"

fun decimal :: "nat \<Rightarrow> string" where
  "decimal n = (if n < 10 then [decimal_digit n] else decimal (n div 10) @ [decimal_digit (n mod 10)])"

declare decimal.simps [simp del]

text \<open>Trailing zeros are no part of the shortest digits.\<close>

fun strip_zeros :: "nat \<Rightarrow> nat" where
  "strip_zeros s = (if s \<noteq> 0 \<and> s mod 10 = 0 then strip_zeros (s div 10) else s)"

declare strip_zeros.simps [simp del]

text \<open>\<^verbatim>\<open>Number::toString\<close>: with \<open>k\<close> the number of digits, the digits are followed by zeros
  up to the point when \<open>k \<le> n \<le> 21\<close>, split at the point when \<open>0 < n \<le> 21\<close>, preceded by
  \<^verbatim>\<open>0.\<close> and zeros when \<open>-6 < n \<le> 0\<close>, and written with an exponent otherwise. Zero, of
  either sign, is \<^verbatim>\<open>0\<close>.\<close>

definition exponent_text :: "int \<Rightarrow> string" where
  "exponent_text e = (if e < 0 then ''e-'' else ''e+'') @ decimal (nat \<bar>e\<bar>)"

definition number_text :: "js_number \<Rightarrow> string" where
  "number_text x =
     (let s = strip_zeros (digits x); ds = decimal s; k = int (length ds); n = point x
      in if s = 0 then ''0''
         else (if negative x then ''-'' else []) @
           (if k \<le> n \<and> n \<le> 21 then ds @ replicate (nat (n - k)) (CHR ''0'')
            else if 0 < n \<and> n \<le> 21 then take (nat n) ds @ ''.'' @ drop (nat n) ds
            else if -6 < n \<and> n \<le> 0 then ''0.'' @ replicate (nat (- n)) (CHR ''0'') @ ds
            else if k = 1 then ds @ exponent_text (n - 1)
            else take 1 ds @ ''.'' @ drop 1 ds @ exponent_text (n - 1)))"

text \<open>The number an integer is, when its decimal digits are the shortest ones of the double
  (as they are for every integer of magnitude below \<open>2\<^sup>5\<^sup>3\<close>).\<close>

definition whole :: "int \<Rightarrow> js_number" where
  "whole i = \<lparr>negative = i < 0, digits = nat \<bar>i\<bar>, point = int (length (decimal (nat \<bar>i\<bar>)))\<rparr>"

text \<open>\<^verbatim>\<open>JSON.stringify\<close> with no indent argument: the quote, the backslash and the control
  characters are escaped inside strings, and nothing is put between the tokens.\<close>

definition escape_char :: "char \<Rightarrow> string" where
  "escape_char c =
     (if c = CHR ''\"'' then [CHR 0x5C, CHR ''\"'']
      else if c = CHR 0x5C then [CHR 0x5C, CHR 0x5C]
      else if c = CHR 0x08 then [CHR 0x5C, CHR ''b'']
      else if c = CHR 0x09 then [CHR 0x5C, CHR ''t'']
      else if c = CHR 0x0A then [CHR 0x5C, CHR ''n'']
      else if c = CHR 0x0C then [CHR 0x5C, CHR ''f'']
      else if c = CHR 0x0D then [CHR 0x5C, CHR ''r'']
      else if (of_char c :: nat) < 32
           then [CHR 0x5C, CHR ''u'', CHR ''0'', CHR ''0'',
                 hexdigit (of_char c div 16), hexdigit (of_char c mod 16)]
      else [c])"

definition quote :: "string \<Rightarrow> string" where
  "quote s = CHR ''\"'' # concat (map escape_char s) @ [CHR ''\"'']"

fun join :: "string \<Rightarrow> string list \<Rightarrow> string" where
  "join sep [] = []"
| "join sep [x] = x"
| "join sep (x # y # ys) = x @ sep @ join sep (y # ys)"

fun JSON_stringify :: "json \<Rightarrow> string" where
  "JSON_stringify JNull = ''null''"
| "JSON_stringify (JBool b) = (if b then ''true'' else ''false'')"
| "JSON_stringify (JNumber x) = number_text x"
| "JSON_stringify (JString s) = quote s"
| "JSON_stringify (JArray vs) = ''['' @ join '','' (map JSON_stringify vs) @ '']''"
| "JSON_stringify (JObject kvs) =
     ''{'' @ join '','' (map (\<lambda>kv. quote (fst kv) @ '':'' @ JSON_stringify (snd kv)) kvs) @ ''}''"

section \<open>The digest of \<^verbatim>\<open>crypto.createHash('sha256')\<close>\<close>

text \<open>
  SHA-256 as FIPS 180-4 defines it, on 32-bit words kept as integers below \<open>2\<^sup>3\<^sup>2\<close>, with the
  digest in lower-case hexadecimal as \<^verbatim>\<open>digest('hex')\<close> returns it. The operations of the
  store take the digest as a parameter; this definition is the one the running system
  passes.
\<close>

unbundle bit_operations_syntax

definition w32 :: "int \<Rightarrow> int" where
  "w32 x = x mod 4294967296"

definition rotr :: "nat \<Rightarrow> int \<Rightarrow> int" where
  "rotr n x = w32 (x div 2 ^ n + (x mod 2 ^ n) * 2 ^ (32 - n))"

definition shr :: "nat \<Rightarrow> int \<Rightarrow> int" where
  "shr n x = x div 2 ^ n"

definition round_constants :: "int list" where
  "round_constants =
    [1116352408, 1899447441, 3049323471, 3921009573, 961987163, 1508970993,
     2453635748, 2870763221, 3624381080, 310598401, 607225278, 1426881987,
     1925078388, 2162078206, 2614888103, 3248222580, 3835390401, 4022224774,
     264347078, 604807628, 770255983, 1249150122, 1555081692, 1996064986,
     2554220882, 2821834349, 2952996808, 3210313671, 3336571891, 3584528711,
     113926993, 338241895, 666307205, 773529912, 1294757372, 1396182291,
     1695183700, 1986661051, 2177026350, 2456956037, 2730485921, 2820302411,
     3259730800, 3345764771, 3516065817, 3600352804, 4094571909, 275423344,
     430227734, 506948616, 659060556, 883997877, 958139571, 1322822218,
     1537002063, 1747873779, 1955562222, 2024104815, 2227730452, 2361852424,
     2428436474, 2756734187, 3204031479, 3329325298]"

definition initial_hash :: "int list" where
  "initial_hash =
    [1779033703, 3144134277, 1013904242, 2773480762, 1359893119, 2600822924,
     528734635, 1541459225]"

definition small_sigma0 :: "int \<Rightarrow> int" where
  "small_sigma0 x = rotr 7 x XOR rotr 18 x XOR shr 3 x"

definition small_sigma1 :: "int \<Rightarrow> int" where
  "small_sigma1 x = rotr 17 x XOR rotr 19 x XOR shr 10 x"

definition big_sigma0 :: "int \<Rightarrow> int" where
  "big_sigma0 x = rotr 2 x XOR rotr 13 x XOR rotr 22 x"

definition big_sigma1 :: "int \<Rightarrow> int" where
  "big_sigma1 x = rotr 6 x XOR rotr 11 x XOR rotr 25 x"

definition choice :: "int \<Rightarrow> int \<Rightarrow> int \<Rightarrow> int" where
  "choice x y z = (x AND y) XOR ((4294967295 - x) AND z)"

definition majority :: "int \<Rightarrow> int \<Rightarrow> int \<Rightarrow> int" where
  "majority x y z = (x AND y) XOR (x AND z) XOR (y AND z)"

text \<open>The message schedule, newest word first: sixteen words of the block, then 48 more.\<close>

fun schedule :: "nat \<Rightarrow> int list \<Rightarrow> int list" where
  "schedule 0 ws = ws"
| "schedule (Suc n) ws =
     schedule n (w32 (small_sigma1 (ws ! 1) + ws ! 6 + small_sigma0 (ws ! 14) + ws ! 15) # ws)"

fun rounds :: "int list \<Rightarrow> int list \<Rightarrow> int list \<Rightarrow> int list" where
  "rounds [a, b, c, d, e, f, g, h] (k # ks) (w # ws) =
     (let t1 = h + big_sigma1 e + choice e f g + k + w;
          t2 = big_sigma0 a + majority a b c
      in rounds [w32 (t1 + t2), a, b, c, w32 (d + t1), e, f, g] ks ws)"
| "rounds s ks ws = s"

fun big_endian_words :: "int list \<Rightarrow> int list" where
  "big_endian_words (a # b # c # d # r) = (((a * 256 + b) * 256 + c) * 256 + d) # big_endian_words r"
| "big_endian_words r = []"

definition compress :: "int list \<Rightarrow> int list \<Rightarrow> int list" where
  "compress hs block =
     map2 (\<lambda>x y. w32 (x + y)) hs
       (rounds hs round_constants (rev (schedule 48 (rev (big_endian_words block)))))"

fun hash_blocks :: "nat \<Rightarrow> int list \<Rightarrow> int list \<Rightarrow> int list" where
  "hash_blocks 0 hs bs = hs"
| "hash_blocks (Suc n) hs bs = hash_blocks n (compress hs (take 64 bs)) (drop 64 bs)"

definition padding :: "int list \<Rightarrow> int list" where
  "padding bs =
     (let l = length bs; z = (55 + 64 - l mod 64) mod 64; n = int l * 8
      in bs @ [128] @ replicate z 0 @ map (\<lambda>i. (n div 256 ^ i) mod 256) [7, 6, 5, 4, 3, 2, 1, 0])"

definition hex_word :: "int \<Rightarrow> string" where
  "hex_word x = map (\<lambda>i. hexdigit (nat ((x div 16 ^ i) mod 16))) [7, 6, 5, 4, 3, 2, 1, 0]"

definition sha256_hex :: "string \<Rightarrow> string" where
  "sha256_hex s =
     (let p = padding (map (\<lambda>c. int (of_char c)) s)
      in concat (map hex_word (hash_blocks (length p div 64) initial_hash p)))"

section \<open>Jobs: \<^verbatim>\<open>enqueueJob\<close>, \<^verbatim>\<open>claimNextJob\<close>, \<^verbatim>\<open>updateJobStatus\<close>, \<^verbatim>\<open>cleanupStaleJobs\<close>\<close>

definition generateContentHash :: "(string \<Rightarrow> string) \<Rightarrow> string \<Rightarrow> string" where
  "generateContentHash sha256 content = sha256 content"

datatype enqueue_status = enqueued | already_queued | already_completed

record enqueue_reply =
  reply_jobId :: string
  reply_status :: enqueue_status
  reply_result :: "string option"

text \<open>The \<^verbatim>\<open>WHERE\<close> clause of the partial unique index \<^verbatim>\<open>idx_jobs_unique_active\<close>.\<close>

definition active :: "job \<Rightarrow> bool" where
  "active j \<longleftrightarrow> state j = queued \<or> state j = processing"

definition same_key :: "job \<Rightarrow> job \<Rightarrow> bool" where
  "same_key a b \<longleftrightarrow> dedupe_key a = dedupe_key b \<and> content_hash a = content_hash b"

text \<open>
  \<^verbatim>\<open>checkQuery\<close>, run with \<^verbatim>\<open>db.get\<close>, which returns the first row of the answer. The
  statement has no \<^verbatim>\<open>ORDER BY\<close>; SQLite answers it from the index \<^verbatim>\<open>idx_jobs_dedupe\<close> on
  \<^verbatim>\<open>(dedupe_key, content_hash, state)\<close>, so the rows of the key come in the order of the
  index: the state texts in bytewise order, \<^verbatim>\<open>processing\<close> before \<^verbatim>\<open>queued\<close> before
  \<^verbatim>\<open>succeeded\<close>, and within one state by rowid.
\<close>

definition first_in_state :: "db \<Rightarrow> string \<Rightarrow> string \<Rightarrow> job_state \<Rightarrow> job option" where
  "first_in_state d dedupeKey contentHash st =
     find (\<lambda>j. dedupe_key j = dedupeKey \<and> content_hash j = contentHash \<and> state j = st) (jobs d)"

definition checkQuery :: "db \<Rightarrow> string \<Rightarrow> string \<Rightarrow> job option" where
  "checkQuery d dedupeKey contentHash =
     (case first_in_state d dedupeKey contentHash processing of
        Some j \<Rightarrow> Some j
      | None \<Rightarrow>
         (case first_in_state d dedupeKey contentHash queued of
            Some j \<Rightarrow> Some j
          | None \<Rightarrow> first_in_state d dedupeKey contentHash succeeded))"

text \<open>What the engine refuses on \<^verbatim>\<open>INSERT INTO jobs\<close>: a primary key already there, or a second
  row in the partial unique index.\<close>

definition insert_conflict :: "job list \<Rightarrow> job \<Rightarrow> bool" where
  "insert_conflict js new \<longleftrightarrow>
     (\<exists>r \<in> set js. job_id r = job_id new) \<or>
     (active new \<and> (\<exists>r \<in> set js. active r \<and> same_key r new))"

text \<open>
  What lies outside one call of \<^verbatim>\<open>enqueueJob\<close>: the identifier \<^verbatim>\<open>crypto.randomUUID()\<close>
  returns, what other requests commit between the statements of this one (the statements
  run in separate callbacks, with no transaction around them), and an engine failure of
  each statement other than the constraint the tables decide.
\<close>

record enqueue_env =
  randomUUID :: string
  check_failure :: "js_error option"
  before_insert :: "db \<Rightarrow> db"
  insert_failure :: "js_error option"
  before_reread :: "db \<Rightarrow> db"
  reread_failure :: "js_error option"

definition new_job :: "string \<Rightarrow> string \<Rightarrow> string \<Rightarrow> string \<Rightarrow> int \<Rightarrow> int \<Rightarrow> int \<Rightarrow> job" where
  "new_job jobId fileId contentHash content prio maxAttempts now =
     \<lparr>job_id = jobId, file_id = fileId, dedupe_key = fileId, content_hash = contentHash,
      payload_json = content, priority = prio, state = queued, attempts = 0,
      max_attempts = maxAttempts, error = None, result = None,
      created_at = CURRENT_TIMESTAMP now, updated_at = CURRENT_TIMESTAMP now,
      locked_at = None, worker_id = None\<rparr>"

definition run_insert :: "js_error option \<Rightarrow> db \<Rightarrow> job \<Rightarrow> js_error + db" where
  "run_insert failure d new =
     (case failure of
        Some err \<Rightarrow> Inl err
      | None \<Rightarrow>
          if insert_conflict (jobs d) new
          then Inl (SQLITE_CONSTRAINT ''UNIQUE constraint failed'')
          else Inr (d\<lparr>jobs := jobs d @ [new]\<rparr>))"

definition enqueueJob ::
  "(string \<Rightarrow> string) \<Rightarrow> enqueue_env \<Rightarrow> int \<Rightarrow> db \<Rightarrow> string \<Rightarrow> json \<Rightarrow> int \<Rightarrow> int
     \<Rightarrow> enqueue_reply outcome \<times> db" where
  "enqueueJob sha256 env now d fileId jsonData prio maxAttempts =
     (let content = JSON_stringify jsonData;
          contentHash = generateContentHash sha256 content;
          dedupeKey = fileId;
          jobId = randomUUID env
      in case check_failure env of
           Some err \<Rightarrow> (Reject err, d)
         | None \<Rightarrow>
            (case checkQuery d dedupeKey contentHash of
               Some existingJob \<Rightarrow>
                 (if state existingJob = succeeded
                  then (Resolve \<lparr>reply_jobId = job_id existingJob, reply_status = already_completed,
                                 reply_result = result existingJob\<rparr>, d)
                  else (Resolve \<lparr>reply_jobId = job_id existingJob, reply_status = already_queued,
                                 reply_result = None\<rparr>, d))
             | None \<Rightarrow>
                 (let d1 = before_insert env d in
                  case run_insert (insert_failure env) d1
                         (new_job jobId fileId contentHash content prio maxAttempts now) of
                    Inr d2 \<Rightarrow>
                      (Resolve \<lparr>reply_jobId = jobId, reply_status = enqueued, reply_result = None\<rparr>, d2)
                  | Inl err \<Rightarrow>
                      if code err = Some ''SQLITE_CONSTRAINT''
                      then (let d3 = before_reread env d1 in
                            case reread_failure env of
                              Some findErr \<Rightarrow> (Reject findErr, d3)
                            | None \<Rightarrow>
                               (case checkQuery d3 dedupeKey contentHash of
                                  Some foundJob \<Rightarrow>
                                    (Resolve \<lparr>reply_jobId = job_id foundJob,
                                              reply_status = already_queued, reply_result = None\<rparr>, d3)
                                | None \<Rightarrow>
                                    (Reject (Error ''Constraint violation but job not found''), d3)))
                      else (Reject err, d1))))"

text \<open>\<^verbatim>\<open>ORDER BY priority DESC, created_at ASC LIMIT 1\<close> over the queued rows: \<open>claim_before a b\<close>
  says that \<open>a\<close> sorts strictly before \<open>b\<close>; among rows that sort alike the first in rowid
  order is taken.\<close>

definition claim_before :: "job \<Rightarrow> job \<Rightarrow> bool" where
  "claim_before a b \<longleftrightarrow>
     priority a > priority b \<or>
     (priority a = priority b \<and> text_less (created_at a) (created_at b))"

fun first_in_order :: "job list \<Rightarrow> job option" where
  "first_in_order [] = None"
| "first_in_order (j # js) =
     (case first_in_order js of
        None \<Rightarrow> Some j
      | Some b \<Rightarrow> if claim_before b j then Some b else Some j)"

definition selectQuery :: "db \<Rightarrow> job option" where
  "selectQuery d = first_in_order (filter (\<lambda>j. state j = queued) (jobs d))"

definition claim_row :: "string \<Rightarrow> int \<Rightarrow> string \<Rightarrow> job \<Rightarrow> job" where
  "claim_row jobId now workerId j =
     (if job_id j = jobId \<and> state j = queued
      then j\<lparr>state := processing, locked_at := Some (CURRENT_TIMESTAMP now),
             worker_id := Some workerId, updated_at := CURRENT_TIMESTAMP now\<rparr>
      else j)"

text \<open>
  \<^verbatim>\<open>claimNextJob\<close>: the \<^verbatim>\<open>SELECT\<close> reads \<open>d\<close>, other workers may commit in between
  (\<open>between\<close>), and the \<^verbatim>\<open>UPDATE ... WHERE id = ? AND state = 'queued'\<close> runs on what they
  left. \<^verbatim>\<open>JSON.parse\<close> is a parameter; the job handed back is the row as the
  \<^verbatim>\<open>SELECT\<close> read it, with the parsed payload.
\<close>

definition claimNextJob ::
  "(string \<Rightarrow> json option) \<Rightarrow> (db \<Rightarrow> db) \<Rightarrow> int \<Rightarrow> db \<Rightarrow> string
     \<Rightarrow> (job \<times> json) option outcome \<times> db" where
  "claimNextJob JSON_parse between now d workerId =
     (case selectQuery d of
        None \<Rightarrow> (Resolve None, d)
      | Some j \<Rightarrow>
          (let d1 = between d;
               changes = length (filter (\<lambda>r. job_id r = job_id j \<and> state r = queued) (jobs d1));
               d2 = d1\<lparr>jobs := map (claim_row (job_id j) now workerId) (jobs d1)\<rparr>
           in if changes = 0 then (Resolve None, d2)
              else (case JSON_parse (payload_json j) of
                      Some v \<Rightarrow> (Resolve (Some (j, v)), d2)
                    | None \<Rightarrow> (Reject (Error ''Failed to parse job payload''), d2))))"

text \<open>\<^verbatim>\<open>updateJobStatus\<close>: \<^verbatim>\<open>UPDATE jobs SET ... WHERE id = ?\<close>, whatever state the row is in.
  The engine refuses the statement when it would put a second row of one key into the
  partial unique index.\<close>

definition update_conflict :: "job list \<Rightarrow> string \<Rightarrow> job_state \<Rightarrow> bool" where
  "update_conflict js jobId st \<longleftrightarrow>
     (st = queued \<or> st = processing) \<and>
     (\<exists>j \<in> set js. job_id j = jobId \<and>
        (\<exists>r \<in> set js. job_id r \<noteq> jobId \<and> active r \<and> same_key r j))"

definition set_status :: "string \<Rightarrow> job_state \<Rightarrow> string option \<Rightarrow> string option \<Rightarrow> int \<Rightarrow> job \<Rightarrow> job" where
  "set_status jobId st res err now j =
     (if job_id j = jobId
      then j\<lparr>state := st, result := res, error := err,
             updated_at := CURRENT_TIMESTAMP now, locked_at := None, worker_id := None\<rparr>
      else j)"

definition updateJobStatus ::
  "db \<Rightarrow> int \<Rightarrow> string \<Rightarrow> job_state \<Rightarrow> string option \<Rightarrow> string option \<Rightarrow> bool outcome \<times> db" where
  "updateJobStatus d now jobId st res err =
     (if update_conflict (jobs d) jobId st
      then (Reject (SQLITE_CONSTRAINT ''UNIQUE constraint failed''), d)
      else (Resolve (\<exists>j \<in> set (jobs d). job_id j = jobId),
            d\<lparr>jobs := map (set_status jobId st res err now) (jobs d)\<rparr>))"

text \<open>\<^verbatim>\<open>incrementJobAttempt\<close>: three statements, each committed on its own. The counter is
  incremented first; the row read back is \<^verbatim>\<open>undefined\<close> when the job does not exist, and
  \<^verbatim>\<open>row.attempts\<close> then throws inside the callback.\<close>

definition count_attempt :: "string \<Rightarrow> int \<Rightarrow> job \<Rightarrow> job" where
  "count_attempt jobId now j =
     (if job_id j = jobId
      then j\<lparr>attempts := attempts j + 1, updated_at := CURRENT_TIMESTAMP now\<rparr>
      else j)"

definition incrementJobAttempt ::
  "db \<Rightarrow> int \<Rightarrow> string \<Rightarrow> string option \<Rightarrow> string option \<Rightarrow> bool \<Rightarrow> string option
     \<Rightarrow> unit outcome \<times> db" where
  "incrementJobAttempt d now jobId providerId modelId ok err =
     (let d1 = d\<lparr>jobs := map (count_attempt jobId now) (jobs d)\<rparr> in
      case find (\<lambda>j. job_id j = jobId) (jobs d1) of
        None \<Rightarrow> (Uncaught ''TypeError: Cannot read properties of undefined'', d1)
      | Some row \<Rightarrow>
          if (case providerId of None \<Rightarrow> False
              | Some p \<Rightarrow> \<not> (\<exists>r \<in> set (providers d1). provider_id r = p)) \<or>
             (case modelId of None \<Rightarrow> False
              | Some m \<Rightarrow> \<not> (\<exists>r \<in> set (models d1). model_id r = m))
          then (Reject (SQLITE_CONSTRAINT ''FOREIGN KEY constraint failed''), d1)
          else (Resolve (),
                d1\<lparr>job_attempts := job_attempts d1 @
                   [\<lparr>attempt_id = next_rowid (map attempt_id (job_attempts d1)),
                     attempt_job_id = jobId, attempt_no = attempts row,
                     attempt_provider_id = providerId, attempt_model_id = modelId,
                     finished_at = CURRENT_TIMESTAMP now, success = ok,
                     attempt_error = err\<rparr>]\<rparr>))"

text \<open>\<^verbatim>\<open>cleanupStaleJobs\<close>: the cut-off is bound as the text \<^verbatim>\<open>toISOString()\<close> returns, and
  \<^verbatim>\<open>locked_at < ?\<close> compares it with the text \<^verbatim>\<open>CURRENT_TIMESTAMP\<close> stored; a \<^verbatim>\<open>NULL\<close>
  lock time compares as unknown and the row is left.\<close>

definition stale :: "timestamp_text \<Rightarrow> job \<Rightarrow> bool" where
  "stale cutoffTime j \<longleftrightarrow>
     state j = processing \<and>
     (case locked_at j of None \<Rightarrow> False | Some t \<Rightarrow> text_less t cutoffTime)"

definition time_out :: "timestamp_text \<Rightarrow> int \<Rightarrow> job \<Rightarrow> job" where
  "time_out cutoffTime now j =
     (if stale cutoffTime j
      then j\<lparr>state := failed, error := Some ''Job timed out'', locked_at := None,
             worker_id := None, updated_at := CURRENT_TIMESTAMP now\<rparr>
      else j)"

definition cleanupStaleJobs :: "db \<Rightarrow> int \<Rightarrow> int \<Rightarrow> nat outcome \<times> db" where
  "cleanupStaleJobs d now timeoutMinutes =
     (let cutoffTime = toISOString (now - timeoutMinutes * 60 * 1000)
      in (Resolve (length (filter (stale cutoffTime) (jobs d))),
          d\<lparr>jobs := map (time_out cutoffTime now) (jobs d)\<rparr>))"

section \<open>Providers: \<^verbatim>\<open>setProviderBackoff\<close>, \<^verbatim>\<open>getAvailableModels\<close>\<close>

text \<open>\<^verbatim>\<open>INSERT OR REPLACE\<close> on the primary key \<^verbatim>\<open>provider_id\<close>: the old row of the provider
  goes, the new one is added; the provider must exist (foreign key).\<close>

definition setProviderBackoff :: "db \<Rightarrow> string \<Rightarrow> timestamp_text \<Rightarrow> string \<Rightarrow> unit outcome \<times> db" where
  "setProviderBackoff d providerId untilTime why =
     (if \<exists>p \<in> set (providers d). provider_id p = providerId
      then (Resolve (),
            d\<lparr>provider_backoff :=
                 filter (\<lambda>b. backoff_provider_id b \<noteq> providerId) (provider_backoff d) @
                 [\<lparr>backoff_provider_id = providerId, until = untilTime, reason = why\<rparr>]\<rparr>)
      else (Reject (SQLITE_CONSTRAINT ''FOREIGN KEY constraint failed''), d))"

text \<open>Bytewise order of two strings (SQLite's \<^verbatim>\<open>BINARY\<close> collation), for \<^verbatim>\<open>ORDER BY m.id\<close>.\<close>

fun bytes_less :: "string \<Rightarrow> string \<Rightarrow> bool" where
  "bytes_less [] [] = False"
| "bytes_less [] (y # ys) = True"
| "bytes_less (x # xs) [] = False"
| "bytes_less (x # xs) (y # ys) =
     ((of_char x :: nat) < of_char y \<or> (x = y \<and> bytes_less xs ys))"

definition candidate_le :: "model \<times> provider \<Rightarrow> model \<times> provider \<Rightarrow> bool" where
  "candidate_le a b \<longleftrightarrow>
     provider_priority (snd a) < provider_priority (snd b) \<or>
     (provider_priority (snd a) = provider_priority (snd b) \<and>
      \<not> bytes_less (model_id (fst b)) (model_id (fst a)))"

fun insert_candidate :: "model \<times> provider \<Rightarrow> (model \<times> provider) list \<Rightarrow> (model \<times> provider) list" where
  "insert_candidate a [] = [a]"
| "insert_candidate a (b # bs) =
     (if candidate_le a b then a # b # bs else b # insert_candidate a bs)"

definition order_candidates :: "(model \<times> provider) list \<Rightarrow> (model \<times> provider) list" where
  "order_candidates cs = foldr insert_candidate cs []"

definition gated :: "db \<Rightarrow> int \<Rightarrow> string \<Rightarrow> bool" where
  "gated d now providerId \<longleftrightarrow>
     (\<exists>b \<in> set (provider_backoff d).
        backoff_provider_id b = providerId \<and> text_less (CURRENT_TIMESTAMP now) (until b))"

definition getAvailableModels :: "db \<Rightarrow> int \<Rightarrow> (model \<times> provider) list" where
  "getAvailableModels d now =
     order_candidates
       (concat (map (\<lambda>m. map (\<lambda>p. (m, p))
                  (filter (\<lambda>p. model_provider_id m = provider_id p \<and> model_enabled m \<and>
                               provider_enabled p \<and> \<not> gated d now (provider_id p))
                     (providers d)))
          (models d)))"

section \<open>The router of \<^verbatim>\<open>ai-router.js\<close>\<close>

text \<open>String helpers of JavaScript, on byte strings: \<^verbatim>\<open>toLowerCase\<close> (the ASCII letters),
  \<^verbatim>\<open>includes\<close>, and \<^verbatim>\<open>trim\<close> (the ASCII white space).\<close>

definition lower_char :: "char \<Rightarrow> char" where
  "lower_char c =
     (let n = (of_char c :: nat) in if 65 \<le> n \<and> n \<le> 90 then char_of (n + 32) else c)"

definition toLowerCase :: "string \<Rightarrow> string" where
  "toLowerCase s = map lower_char s"

fun starts_with :: "string \<Rightarrow> string \<Rightarrow> bool" where
  "starts_with s [] = True"
| "starts_with [] (p # ps) = False"
| "starts_with (c # cs) (p # ps) = (c = p \<and> starts_with cs ps)"

fun includes_sub :: "string \<Rightarrow> string \<Rightarrow> bool" where
  "includes_sub [] sub = (sub = [])"
| "includes_sub (c # cs) sub = (starts_with (c # cs) sub \<or> includes_sub cs sub)"

definition white_space :: "char \<Rightarrow> bool" where
  "white_space c \<longleftrightarrow> (let n = (of_char c :: nat) in (9 \<le> n \<and> n \<le> 13) \<or> n = 32)"

definition trim :: "string \<Rightarrow> string" where
  "trim s = rev (dropWhile white_space (rev (dropWhile white_space s)))"

text \<open>\<^verbatim>\<open>handleModelError\<close>: three tests in the order of the source, the first that holds
  decides; \<^verbatim>\<open>error.status >= 500\<close> is false when the error carries no status.\<close>

definition handleModelError :: "db \<Rightarrow> int \<Rightarrow> model \<times> provider \<Rightarrow> js_error \<Rightarrow> unit outcome \<times> db" where
  "handleModelError d now m err =
     (let errorMessage = toLowerCase (message err) in
      if includes_sub errorMessage ''quota'' \<or> includes_sub errorMessage ''rate limit'' \<or>
         includes_sub errorMessage ''429'' \<or> status err = Some 429
      then setProviderBackoff d (model_provider_id (fst m))
             (toISOString (now + 60 * 60 * 1000)) ''Rate limit exceeded''
      else if includes_sub errorMessage ''auth'' \<or> includes_sub errorMessage ''api key'' \<or>
              includes_sub errorMessage ''unauthorized'' \<or> status err = Some 401
      then setProviderBackoff d (model_provider_id (fst m))
             (toISOString (now + 4 * 60 * 60 * 1000)) ''Authentication failed''
      else if includes_sub errorMessage ''service unavailable'' \<or> includes_sub errorMessage ''503'' \<or>
              includes_sub errorMessage ''502'' \<or> includes_sub errorMessage ''500'' \<or>
              (case status err of None \<Rightarrow> False | Some s \<Rightarrow> s \<ge> 500)
      then setProviderBackoff d (model_provider_id (fst m))
             (toISOString (now + 15 * 60 * 1000)) ''Service unavailable''
      else (Resolve (), d))"

text \<open>\<^verbatim>\<open>checkRateLimit\<close>: a rejected check counts as a refusal. The router reads only
  \<^verbatim>\<open>allowed\<close>.\<close>

definition checkRateLimit :: "db \<Rightarrow> int \<Rightarrow> string \<Rightarrow> period \<Rightarrow> bool outcome \<times> db" where
  "checkRateLimit d now modelId p =
     (case checkAndIncrementRateLimit d now modelId p of
        (Resolve r, d') \<Rightarrow> (Resolve (allowed r), d')
      | (Reject e, d') \<Rightarrow> (Resolve False, d')
      | (Uncaught s, d') \<Rightarrow> (Uncaught s, d'))"

text \<open>\<^verbatim>\<open>callAIModel\<close>: the provider's SDK is the parameter \<open>generateContent\<close>, from the
  key, the model name, the token limit and the prompt to the text of the response or the
  error thrown.\<close>

type_synonym sdk = "string \<Rightarrow> string \<Rightarrow> int \<Rightarrow> string \<Rightarrow> js_error + string"

definition fullPrompt :: "string \<Rightarrow> string" where
  "fullPrompt content =
     ''Summarize this content in English. Use markdown formatting for better readability:'' @
     [CHR 0x0A, CHR 0x0A] @
     ''IMPORTANT FORMATTING REQUIREMENTS:'' @ [CHR 0x0A] @
     ''- Use # for main title/heading'' @ [CHR 0x0A] @
     ''- Use ## for important sections  '' @ [CHR 0x0A] @
     ''- Use **bold** for key points'' @ [CHR 0x0A] @
     ''- Use - for bullet points'' @ [CHR 0x0A] @
     ''- Use proper line breaks between sections'' @ [CHR 0x0A] @
     ''- Make the summary well-structured and visually appealing'' @ [CHR 0x0A, CHR 0x0A] @
     ''Content to summarize:'' @ [CHR 0x0A, CHR 0x0A] @ content"

definition callAIModel :: "sdk \<Rightarrow> model \<times> provider \<Rightarrow> string \<Rightarrow> int \<Rightarrow> js_error + string" where
  "callAIModel generateContent m content maxTokens =
     (case generateContent (api_key (snd m)) (model_name (fst m)) maxTokens (fullPrompt content) of
        Inl err \<Rightarrow> Inl err
      | Inr summary \<Rightarrow>
          if trim summary = [] then Inl (Error ''AI returned empty summary'')
          else Inr (trim summary))"

text \<open>The \<^verbatim>\<open>catch\<close> block of the loop: record the failed attempt, apply the back-off, go on
  with the next model (\<open>continue\<close>). An error of the recording leaves the loop.\<close>

definition model_failed ::
  "db \<Rightarrow> int \<Rightarrow> string \<Rightarrow> model \<times> provider \<Rightarrow> js_error
     \<Rightarrow> (js_error option \<Rightarrow> db \<Rightarrow> string outcome \<times> db) \<Rightarrow> string outcome \<times> db" where
  "model_failed d now jobId m err continue =
     (case incrementJobAttempt d now jobId (Some (model_provider_id (fst m)))
             (Some (model_id (fst m))) False (Some (message err)) of
        (Resolve u, d1) \<Rightarrow>
          (case handleModelError d1 now m err of
             (Resolve u, d2) \<Rightarrow> continue (Some err) d2
           | (Reject e, d2) \<Rightarrow> (Reject e, d2)
           | (Uncaught s, d2) \<Rightarrow> (Uncaught s, d2))
      | (Reject e, d1) \<Rightarrow> (Reject e, d1)
      | (Uncaught s, d1) \<Rightarrow> (Uncaught s, d1))"

fun try_models ::
  "sdk \<Rightarrow> int \<Rightarrow> string \<Rightarrow> int \<Rightarrow> string \<Rightarrow> (model \<times> provider) list \<Rightarrow> js_error option \<Rightarrow> db
     \<Rightarrow> string outcome \<times> db" where
  "try_models generateContent now content maxTokens jobId [] lastError d =
     (Reject (Error (''All available AI models failed. Last error: '' @
        (case lastError of None \<Rightarrow> ''Unknown error'' | Some e \<Rightarrow> message e))), d)"
| "try_models generateContent now content maxTokens jobId (m # ms) lastError d =
     (case checkRateLimit d now (model_id (fst m)) minute of
        (Uncaught s, d1) \<Rightarrow> (Uncaught s, d1)
      | (Reject e, d1) \<Rightarrow> (Reject e, d1)
      | (Resolve minuteAllowed, d1) \<Rightarrow>
          if \<not> minuteAllowed
          then try_models generateContent now content maxTokens jobId ms lastError d1
          else
           (case checkRateLimit d1 now (model_id (fst m)) day of
              (Uncaught s, d2) \<Rightarrow> (Uncaught s, d2)
            | (Reject e, d2) \<Rightarrow> (Reject e, d2)
            | (Resolve dayAllowed, d2) \<Rightarrow>
                if \<not> dayAllowed
                then try_models generateContent now content maxTokens jobId ms lastError d2
                else
                 (case callAIModel generateContent m content maxTokens of
                    Inl err \<Rightarrow>
                      model_failed d2 now jobId m err
                        (try_models generateContent now content maxTokens jobId ms)
                  | Inr summary \<Rightarrow>
                     (case incrementJobAttempt d2 now jobId (Some (model_provider_id (fst m)))
                             (Some (model_id (fst m))) True None of
                        (Resolve u, d3) \<Rightarrow> (Resolve summary, d3)
                      | (Reject e, d3) \<Rightarrow>
                          model_failed d3 now jobId m e
                            (try_models generateContent now content maxTokens jobId ms)
                      | (Uncaught s, d3) \<Rightarrow> (Uncaught s, d3)))))"

definition summarizeContent ::
  "sdk \<Rightarrow> db \<Rightarrow> int \<Rightarrow> string \<Rightarrow> int \<Rightarrow> string \<Rightarrow> string \<Rightarrow> string outcome \<times> db" where
  "summarizeContent generateContent d now content maxTokens fileId jobId =
     (if trim content = [] then (Reject (Error ''Content is empty or invalid''), d)
      else let availableModels = getAvailableModels d now in
        if availableModels = [] then (Reject (Error ''No available AI models configured''), d)
        else try_models generateContent now content maxTokens jobId availableModels None d)"

section \<open>The worker of \<^verbatim>\<open>queue-worker.js\<close>\<close>

record extraction =
  extractedText :: string
  contentBlocks :: int
  totalWords :: int
  mainContentWords :: int

text \<open>What \<^verbatim>\<open>processJob\<close> calls outside the store and the router: the content extractor,
  the SDK of the provider, and the HTTP callback to the client.\<close>

record worker_env =
  extractOptimizedContent :: "json \<Rightarrow> js_error + extraction"
  calculateSmartTokenLimit :: "int \<Rightarrow> int"
  cleanContentForAI :: "string \<Rightarrow> string"
  generateContent :: sdk
  sendSummaryToClient :: "string \<Rightarrow> string \<Rightarrow> extraction \<Rightarrow> bool"

text \<open>\<^verbatim>\<open>configManager.getConfigurationSummary().enabledModels\<close>.\<close>

definition enabledModels :: "db \<Rightarrow> int \<Rightarrow> nat" where
  "enabledModels d now = length (filter (\<lambda>m. model_enabled (fst m)) (getAvailableModels d now))"

text \<open>The \<^verbatim>\<open>try\<close> block of \<^verbatim>\<open>processJob\<close>: \<open>Inl\<close> is the error thrown in it, with the
  store as it is at that moment; \<open>Inr\<close> is the block run to its end. \<open>j\<close> is the job object
  \<^verbatim>\<open>claimNextJob\<close> returned: the row as it was read before the claim.\<close>

definition processJob_try ::
  "worker_env \<Rightarrow> db \<Rightarrow> int \<Rightarrow> job \<Rightarrow> json \<Rightarrow> (js_error + bool outcome) \<times> db" where
  "processJob_try env d now j payload =
     (case extractOptimizedContent env payload of
        Inl err \<Rightarrow> (Inl err, d)
      | Inr extractionResult \<Rightarrow>
          if trim (extractedText extractionResult) = []
          then (Inl (Error ''No extractable content found in payload''), d)
          else
           (let wordCount = (if mainContentWords extractionResult \<noteq> 0
                             then mainContentWords extractionResult
                             else totalWords extractionResult);
                tokenLimit = calculateSmartTokenLimit env wordCount;
                cleanedContent = cleanContentForAI env (extractedText extractionResult)
            in if enabledModels d now = 0
               then (Inl (Error ''No AI models configured or enabled in config manager''), d)
               else
                (case summarizeContent (generateContent env) d now cleanedContent tokenLimit
                        (file_id j) (job_id j) of
                   (Uncaught s, d1) \<Rightarrow> (Inr (Uncaught s), d1)
                 | (Reject err, d1) \<Rightarrow> (Inl err, d1)
                 | (Resolve summary, d1) \<Rightarrow>
                     if trim summary = []
                     then (Inl (Error ''AI returned empty summary''), d1)
                     else if \<not> sendSummaryToClient env (file_id j) summary extractionResult
                     then (Inl (Error ''Failed to send summary to client''), d1)
                     else
                      (case updateJobStatus d1 now (job_id j) succeeded (Some summary) None of
                         (Reject err, d2) \<Rightarrow> (Inl err, d2)
                       | (done, d2) \<Rightarrow> (Inr done, d2)))))"

text \<open>The \<^verbatim>\<open>catch\<close> block of \<^verbatim>\<open>processJob\<close>.\<close>

definition job_failed :: "db \<Rightarrow> int \<Rightarrow> job \<Rightarrow> js_error \<Rightarrow> bool outcome \<times> db" where
  "job_failed d now j err =
     (let shouldRetry = attempts j + 1 < max_attempts j in
      if shouldRetry then updateJobStatus d now (job_id j) queued None (Some (message err))
      else updateJobStatus d now (job_id j) dead None (Some (message err)))"

definition processJob :: "worker_env \<Rightarrow> db \<Rightarrow> int \<Rightarrow> job \<Rightarrow> json \<Rightarrow> bool outcome \<times> db" where
  "processJob env d now j payload =
     (case processJob_try env d now j payload of
        (Inl err, d1) \<Rightarrow> job_failed d1 now j err
      | (Inr done, d1) \<Rightarrow> (done, d1))"

section \<open>The protocol: the operations as the worker and the ingress use them\<close>

text \<open>
  A state of the system is the database and the jobs that workers hold: a job is held from
  the moment \<^verbatim>\<open>claimNextJob\<close> returns it until \<^verbatim>\<open>processJob\<close> is through with it
  (\<^verbatim>\<open>activeJobs\<close>). Each operation runs to its end before the next one starts; the clock
  reading of a step is free.
\<close>

record system =
  store :: db
  held :: "(job \<times> json) list"

definition alone :: enqueue_env where
  "alone = \<lparr>randomUUID = [], check_failure = None, before_insert = (\<lambda>d. d),
            insert_failure = None, before_reread = (\<lambda>d. d), reread_failure = None\<rparr>"

definition settled :: "'a outcome \<Rightarrow> bool" where
  "settled r \<longleftrightarrow> (case r of Uncaught s \<Rightarrow> False | Resolve v \<Rightarrow> True | Reject e \<Rightarrow> True)"

inductive step :: "(string \<Rightarrow> string) \<Rightarrow> (string \<Rightarrow> json option) \<Rightarrow> system \<Rightarrow> system \<Rightarrow> bool"
  for sha256 :: "string \<Rightarrow> string" and JSON_parse :: "string \<Rightarrow> json option" where
  enqueue:
    "enqueueJob sha256 (alone\<lparr>randomUUID := uuid\<rparr>) now (store s) fileId jsonData prio maxAttempts = (r, d')
     \<Longrightarrow> step sha256 JSON_parse s (s\<lparr>store := d'\<rparr>)"
| claim:
    "claimNextJob JSON_parse (\<lambda>d. d) now (store s) workerId = (r, d')
     \<Longrightarrow> step sha256 JSON_parse s
           \<lparr>store = d', held = (case r of Resolve (Some jp) \<Rightarrow> jp # held s | other \<Rightarrow> held s)\<rparr>"
| finish:
    "(j, payload) \<in> set (held s) \<Longrightarrow> processJob env (store s) now j payload = (r, d') \<Longrightarrow> settled r
     \<Longrightarrow> step sha256 JSON_parse s \<lparr>store = d', held = remove1 (j, payload) (held s)\<rparr>"
| cleanup:
    "cleanupStaleJobs (store s) now 10 = (r, d')
     \<Longrightarrow> step sha256 JSON_parse s (s\<lparr>store := d'\<rparr>)"

section \<open>Sequences of rate-limit checks\<close>

text \<open>Any calls of \<^verbatim>\<open>checkAndIncrementRateLimit\<close>, one after the other, each with its clock
  reading, model and period.\<close>

fun run_checks :: "db \<Rightarrow> (int \<times> string \<times> period) list \<Rightarrow> rate_check outcome list \<times> db" where
  "run_checks d [] = ([], d)"
| "run_checks d ((now, modelId, p) # calls) =
     (case checkAndIncrementRateLimit d now modelId p of
        (r, d1) \<Rightarrow> (case run_checks d1 calls of (rs, d2) \<Rightarrow> (r # rs, d2)))"

definition granted :: "rate_check outcome \<Rightarrow> bool" where
  "granted r \<longleftrightarrow> (case r of Resolve c \<Rightarrow> allowed c | Reject e \<Rightarrow> False | Uncaught s \<Rightarrow> False)"

text \<open>The calls for one model and period whose clock reading falls into the window that
  starts at \<open>ws\<close>, and how many of them were granted.\<close>

definition in_window :: "string \<Rightarrow> period \<Rightarrow> timestamp_text \<Rightarrow> int \<times> string \<times> period \<Rightarrow> bool" where
  "in_window modelId p ws call \<longleftrightarrow>
     fst (snd call) = modelId \<and> snd (snd call) = p \<and> windowStart p (fst call) = ws"

definition grants_in_window ::
  "string \<Rightarrow> period \<Rightarrow> timestamp_text \<Rightarrow> (int \<times> string \<times> period) list \<Rightarrow> rate_check outcome list \<Rightarrow> nat" where
  "grants_in_window modelId p ws calls rs =
     length (filter (\<lambda>cr. in_window modelId p ws (fst cr) \<and> granted (snd cr)) (zip calls rs))"

definition period_limit :: "period \<Rightarrow> model \<Rightarrow> int" where
  "period_limit p m = (if p = minute then per_minute_limit m else per_day_limit m)"

text \<open>How many more grants the counter of a window leaves room for, under the limit \<open>lim\<close>.\<close>

definition room :: "db \<Rightarrow> string \<Rightarrow> period \<Rightarrow> timestamp_text \<Rightarrow> int \<Rightarrow> nat" where
  "room d modelId p ws lim =
     (case find (counter_matches modelId p ws) (rate_counters d) of
        None \<Rightarrow> nat lim
      | Some c \<Rightarrow> nat (lim - used_count c))"

text \<open>A store with one provider and one model whose limits are \<open>perMinute\<close> and \<open>perDay\<close>.\<close>

definition one_model_store :: "int \<Rightarrow> int \<Rightarrow> db" where
  "one_model_store perMinute perDay =
     \<lparr>providers = [\<lparr>provider_id = ''google-primary'', provider_name = ''Google Primary'',
                    api_key = ''key'', provider_priority = 1, provider_enabled = True\<rparr>],
      models = [\<lparr>model_id = ''google-primary-gemini-2.0-flash'',
                 model_provider_id = ''google-primary'', model_name = ''gemini-2.0-flash'',
                 per_minute_limit = perMinute, per_day_limit = perDay, model_enabled = True\<rparr>],
      jobs = [], job_attempts = [], rate_counters = [], provider_backoff = []\<rparr>"

text \<open>Three checks of one model within the minute that starts at 120000 ms.\<close>

definition three_calls :: "(int \<times> string \<times> period) list" where
  "three_calls = [(120000, ''google-primary-gemini-2.0-flash'', minute),
                  (130000, ''google-primary-gemini-2.0-flash'', minute),
                  (179999, ''google-primary-gemini-2.0-flash'', minute)]"

text \<open>Example rows: a job with the payload \<^verbatim>\<open>{}\<close>, and a queue of four jobs.\<close>

definition job_row :: "string \<Rightarrow> string \<Rightarrow> string \<Rightarrow> int \<Rightarrow> job_state \<Rightarrow> int \<Rightarrow> int \<Rightarrow> int \<Rightarrow> job" where
  "job_row jobId fileId contentHash prio st n maxAttempts created =
     \<lparr>job_id = jobId, file_id = fileId, dedupe_key = fileId, content_hash = contentHash,
      payload_json = ''{}'', priority = prio, state = st, attempts = n,
      max_attempts = maxAttempts, error = None, result = None,
      created_at = SqlText created, updated_at = SqlText created,
      locked_at = None, worker_id = None\<rparr>"

definition four_jobs :: db where
  "four_jobs = (one_model_store 10 200)
     \<lparr>jobs := [job_row ''A'' ''fa'' ''h'' 1 queued 0 3 100,
               job_row ''B'' ''fb'' ''h'' 5 queued 0 3 200,
               job_row ''C'' ''fc'' ''h'' 5 queued 0 3 150,
               job_row ''D'' ''fd'' ''h'' 9 failed 0 3 50]\<rparr>"

text \<open>\<^verbatim>\<open>JSON.parse\<close> on the one payload text of the examples.\<close>

definition parse_empty_object :: "string \<Rightarrow> json option" where
  "parse_empty_object s = (if s = ''{}'' then Some (JObject []) else None)"

text \<open>A job that \<^verbatim>\<open>worker-1\<close> claimed at 22:13:20 UTC of a day, still being processed.\<close>

definition claimed_job :: job where
  "claimed_job = (job_row ''J'' ''f'' ''h'' 1 processing 0 3 1699999000)
     \<lparr>locked_at := Some (SqlText 1700000000), worker_id := Some ''worker-1''\<rparr>"

definition one_claimed :: db where
  "one_claimed = (one_model_store 10 200)\<lparr>jobs := [claimed_job]\<rparr>"

text \<open>Three jobs: one claimed a day before, one queued, one succeeded.\<close>

definition three_states :: db where
  "three_states = (one_model_store 10 200)
     \<lparr>jobs := [(job_row ''P'' ''fp'' ''h'' 1 processing 0 3 1699900000)
                  \<lparr>locked_at := Some (SqlText 1699900000), worker_id := Some ''worker-1''\<rparr>,
               job_row ''Q'' ''fq'' ''h'' 1 queued 0 3 1700000000,
               job_row ''S'' ''fs'' ''h'' 1 succeeded 1 3 1699990000]\<rparr>"

text \<open>The three tests of \<^verbatim>\<open>handleModelError\<close>, on the lower-cased message and the status.\<close>

definition quota_signal :: "js_error \<Rightarrow> bool" where
  "quota_signal err \<longleftrightarrow>
     includes_sub (toLowerCase (message err)) ''quota'' \<or>
     includes_sub (toLowerCase (message err)) ''rate limit'' \<or>
     includes_sub (toLowerCase (message err)) ''429'' \<or> status err = Some 429"

definition auth_signal :: "js_error \<Rightarrow> bool" where
  "auth_signal err \<longleftrightarrow>
     includes_sub (toLowerCase (message err)) ''auth'' \<or>
     includes_sub (toLowerCase (message err)) ''api key'' \<or>
     includes_sub (toLowerCase (message err)) ''unauthorized'' \<or> status err = Some 401"

definition service_signal :: "js_error \<Rightarrow> bool" where
  "service_signal err \<longleftrightarrow>
     includes_sub (toLowerCase (message err)) ''service unavailable'' \<or>
     includes_sub (toLowerCase (message err)) ''503'' \<or>
     includes_sub (toLowerCase (message err)) ''502'' \<or>
     includes_sub (toLowerCase (message err)) ''500'' \<or>
     (case status err of None \<Rightarrow> False | Some s \<Rightarrow> s \<ge> 500)"

text \<open>The back-off row of a provider, if it has one.\<close>

definition backoff_of :: "db \<Rightarrow> string \<Rightarrow> backoff option" where
  "backoff_of d providerId = find (\<lambda>b. backoff_provider_id b = providerId) (provider_backoff d)"

text \<open>The one candidate of \<open>one_model_store\<close>.\<close>

definition flash :: "model \<times> provider" where
  "flash = (hd (models (one_model_store 10 200)), hd (providers (one_model_store 10 200)))"

text \<open>The rows \<^verbatim>\<open>checkQuery\<close> looks among: same key, and queued, processing or succeeded.\<close>

definition dedupe_match :: "string \<Rightarrow> string \<Rightarrow> job \<Rightarrow> bool" where
  "dedupe_match fileId contentHash j \<longleftrightarrow>
     dedupe_key j = fileId \<and> content_hash j = contentHash \<and>
     (state j = queued \<or> state j = processing \<or> state j = succeeded)"

text \<open>A payload, a producer that enqueues it for \<^verbatim>\<open>file-1\<close>, and stores in which a job of
  the same key has succeeded or is queued.\<close>

definition small_payload :: json where
  "small_payload = JObject [(''blocks'', JArray [JObject [(''content'', JString ''hello'')]])]"

definition payload_hash :: string where
  "payload_hash = sha256_hex (JSON_stringify small_payload)"

definition done_store :: db where
  "done_store = (one_model_store 10 200)
     \<lparr>jobs := [(job_row ''J1'' ''file-1'' payload_hash 1 succeeded 1 3 1700000000)
                  \<lparr>result := Some ''SUMMARY''\<rparr>]\<rparr>"

definition queued_store :: db where
  "queued_store = (one_model_store 10 200)
     \<lparr>jobs := [job_row ''J2'' ''file-1'' payload_hash 1 queued 0 3 1700000000]\<rparr>"

definition submit :: "enqueue_env \<Rightarrow> db \<Rightarrow> enqueue_reply outcome \<times> db" where
  "submit env d = enqueueJob sha256_hex env 1700000300000 d ''file-1'' small_payload 1 3"

text \<open>A second request for the same payload gets its insert in first.\<close>

definition racing :: enqueue_env where
  "racing = alone\<lparr>randomUUID := ''J9'',
                   before_insert := (\<lambda>d. snd (submit (alone\<lparr>randomUUID := ''J8''\<rparr>) d))\<rparr>"

definition SQLITE_BUSY :: js_error where
  "SQLITE_BUSY = \<lparr>message = ''SQLITE_BUSY: database is locked'', code = Some ''SQLITE_BUSY'',
                  status = None\<rparr>"

text \<open>\<^verbatim>\<open>JSON.parse\<close> on the payload text of the examples.\<close>

definition parse_small :: "string \<Rightarrow> json option" where
  "parse_small s = (if s = JSON_stringify small_payload then Some small_payload else None)"

text \<open>
  A run of the system. A producer submits the payload for \<^verbatim>\<open>file-1\<close>; \<^verbatim>\<open>worker-1\<close>
  claims the job a second later; the cleanup timer fires while the worker still waits for
  the provider, eleven minutes on; the producer submits the same payload again; then the
  worker gets its answer, delivers the summary and marks its job succeeded.
\<close>

definition first_submitted :: db where
  "first_submitted = snd (enqueueJob sha256_hex (alone\<lparr>randomUUID := ''J1''\<rparr>) 1700000000000
      (one_model_store 10 200) ''file-1'' small_payload 1 3)"

definition first_claimed :: db where
  "first_claimed = snd (claimNextJob parse_small (\<lambda>d. d) 1700000001000 first_submitted ''worker-1'')"

definition first_timed_out :: db where
  "first_timed_out = snd (cleanupStaleJobs first_claimed 1700000700000 10)"

definition second_submitted :: db where
  "second_submitted = snd (enqueueJob sha256_hex (alone\<lparr>randomUUID := ''J2''\<rparr>) 1700000710000
      first_timed_out ''file-1'' small_payload 1 3)"

definition late_success :: db where
  "late_success = snd (updateJobStatus second_submitted 1700000720000 ''J1'' succeeded
      (Some ''SUMMARY'') None)"

text \<open>The rows of the run: the first job as submitted, and the second.\<close>

definition first_job :: job where
  "first_job = new_job ''J1'' ''file-1'' payload_hash (JSON_stringify small_payload) 1 3 1700000000000"

definition second_job :: job where
  "second_job = new_job ''J2'' ''file-1'' payload_hash (JSON_stringify small_payload) 1 3 1700000710000"

text \<open>The canonical form the specification names: object keys sorted, recursively, in
  the compact encoding.\<close>

fun insert_key :: "string \<times> json \<Rightarrow> (string \<times> json) list \<Rightarrow> (string \<times> json) list" where
  "insert_key kv [] = [kv]"
| "insert_key kv (x # xs) =
     (if bytes_less (fst x) (fst kv) then x # insert_key kv xs else kv # x # xs)"

fun sort_keys :: "json \<Rightarrow> json" where
  "sort_keys (JArray vs) = JArray (map sort_keys vs)"
| "sort_keys (JObject kvs) =
     JObject (foldr insert_key (map (\<lambda>kv. (fst kv, sort_keys (snd kv))) kvs) [])"
| "sort_keys v = v"

definition canonical_json :: "json \<Rightarrow> string" where
  "canonical_json v = JSON_stringify (sort_keys v)"

text \<open>The content hash of the row that \<^verbatim>\<open>enqueueJob\<close> inserts into an empty queue.\<close>

definition stored_hash :: "json \<Rightarrow> string" where
  "stored_hash payload =
     content_hash (last (jobs (snd (enqueueJob sha256_hex alone 1700000300000
        (one_model_store 10 200) ''file-1'' payload 1 3))))"

text \<open>The object with the properties \<^verbatim>\<open>a: 1\<close> and \<^verbatim>\<open>b: 2\<close>, in both orders.\<close>

definition b_then_a :: json where
  "b_then_a = JObject [(''b'', JNumber (whole 2)), (''a'', JNumber (whole 1))]"

definition a_then_b :: json where
  "a_then_b = JObject [(''a'', JNumber (whole 1)), (''b'', JNumber (whole 2))]"

text \<open>A payload with the numbers \<open>2\<^sup>6\<^sup>3\<close>, one half, \<open>-1.5 \<times> 10\<^sup>-\<^sup>7\<close> and \<open>10\<^sup>2\<^sup>1\<close>.\<close>

definition numbers_payload :: json where
  "numbers_payload = JArray
     [JNumber \<lparr>negative = False, digits = 9223372036854776, point = 19\<rparr>,
      JNumber \<lparr>negative = False, digits = 5, point = 0\<rparr>,
      JNumber \<lparr>negative = True, digits = 15, point = -6\<rparr>,
      JNumber \<lparr>negative = False, digits = 1, point = 22\<rparr>]"

(*PROPERTIES*)
section \<open>Properties of the rate limiter\<close>

lemma next_rowid_gt: "i \<in> set ids \<Longrightarrow> i < next_rowid ids"
  by (induction ids) (auto simp: next_rowid_def)

lemma next_rowid_fresh: "next_rowid ids \<notin> set ids"
  using next_rowid_gt by blast

lemma find_append_one:
  "find P (xs @ [y]) = (case find P xs of None \<Rightarrow> (if P y then Some y else None) | Some x \<Rightarrow> Some x)"
  by (induction xs) auto

lemma find_SomeD: "find P xs = Some x \<Longrightarrow> P x \<and> x \<in> set xs"
  by (induction xs) (auto split: if_splits)

lemma counter_matches_bump [simp]:
  "counter_matches modelId p ws (bump_counter cid c) = counter_matches modelId p ws c"
  by (simp add: counter_matches_def bump_counter_def)

lemma counter_id_bump [simp]: "counter_id (bump_counter cid c) = counter_id c"
  by (simp add: bump_counter_def)

text \<open>Incrementing a row by its id leaves the first match of a window alone when the row
  belongs to another window, and increments it when it is that first match.\<close>

lemma find_bump_other:
  assumes "distinct (map counter_id cs)" "c \<in> set cs" "\<not> counter_matches modelId p ws c"
  shows "find (counter_matches modelId p ws) (map (bump_counter (counter_id c)) cs) =
         find (counter_matches modelId p ws) cs"
  using assms
proof (induction cs)
  case Nil
  then show ?case by simp
next
  case (Cons x xs)
  show ?case
  proof (cases "counter_matches modelId p ws x")
    case True
    then have "x \<noteq> c" using Cons.prems(3) by auto
    then have "counter_id x \<noteq> counter_id c" using Cons.prems(1,2) by force
    then have "bump_counter (counter_id c) x = x" by (simp add: bump_counter_def)
    with True show ?thesis by simp
  next
    case False
    show ?thesis
    proof (cases "x = c")
      case True
      then have "counter_id c \<notin> set (map counter_id xs)" using Cons.prems(1) by simp
      then have "map (bump_counter (counter_id c)) xs = xs"
        by (induction xs) (auto simp: bump_counter_def)
      with False show ?thesis by simp
    next
      case other: False
      with Cons.prems have "c \<in> set xs" by simp
      with Cons False show ?thesis by simp
    qed
  qed
qed

lemma find_bump_self:
  assumes "find (counter_matches modelId p ws) cs = Some c"
  shows "find (counter_matches modelId p ws) (map (bump_counter (counter_id c)) cs) =
         Some (c\<lparr>used_count := used_count c + 1\<rparr>)"
  using assms
  by (induction cs) (auto simp: bump_counter_def counter_matches_def split: if_splits)

lemma check_models:
  "checkAndIncrementRateLimit d now modelId p = (r, d1) \<Longrightarrow> models d1 = models d"
  by (auto simp: checkAndIncrementRateLimit_def Let_def split: option.splits if_splits)

lemma check_distinct:
  assumes "checkAndIncrementRateLimit d now modelId p = (r, d1)"
    and "distinct (map counter_id (rate_counters d))"
  shows "distinct (map counter_id (rate_counters d1))"
  using assms next_rowid_fresh [of "map counter_id (rate_counters d)"]
  by (auto simp: checkAndIncrementRateLimit_def Let_def comp_def split: option.splits if_splits)

lemma denied_unchanged:
  "checkAndIncrementRateLimit d now modelId p = (Resolve r, d') \<Longrightarrow> \<not> allowed r \<Longrightarrow> d' = d"
  by (auto simp: checkAndIncrementRateLimit_def Let_def split: option.splits if_splits)

text \<open>One check uses up at most as much room in a window as it grants.\<close>

lemma check_step:
  assumes call: "checkAndIncrementRateLimit d now modelId' p' = (r, d1)"
    and m: "find (\<lambda>m. model_id m = modelId) (models d) = Some m"
    and lim: "1 \<le> period_limit p m"
    and dist: "distinct (map counter_id (rate_counters d))"
  shows "(if in_window modelId p ws (now, modelId', p') \<and> granted r then 1 else 0)
           + room d1 modelId p ws (period_limit p m) \<le> room d modelId p ws (period_limit p m)"
proof (cases "find (counter_matches modelId' p' (windowStart p' now)) (rate_counters d)")
  case None
  show ?thesis
  proof (cases "\<exists>m \<in> set (models d). model_id m = modelId'")
    case False
    with None call show ?thesis
      by (auto simp: checkAndIncrementRateLimit_def Let_def granted_def)
  next
    case True
    let ?new = "\<lparr>counter_id = next_rowid (map counter_id (rate_counters d)),
                 counter_model_id = modelId', counter_period = p',
                 window_start = windowStart p' now, used_count = 1\<rparr>"
    from None True call have d1: "rate_counters d1 = rate_counters d @ [?new]"
      by (auto simp: checkAndIncrementRateLimit_def Let_def)
    show ?thesis
    proof (cases "in_window modelId p ws (now, modelId', p')")
      case True
      then have same: "modelId' = modelId" "p' = p" "windowStart p' now = ws"
        by (auto simp: in_window_def)
      with None d1 lim show ?thesis
        by (auto simp: room_def find_append_one counter_matches_def)
    next
      case False
      then have "\<not> counter_matches modelId p ws ?new"
        by (auto simp: in_window_def counter_matches_def)
      with False d1 show ?thesis
        by (auto simp: room_def find_append_one split: option.splits)
    qed
  qed
next
  case (Some c)
  then have c: "counter_matches modelId' p' (windowStart p' now) c" "c \<in> set (rate_counters d)"
    using find_SomeD by fastforce+
  show ?thesis
  proof (cases "find (\<lambda>m. model_id m = modelId') (models d)")
    case None
    with Some call show ?thesis
      by (auto simp: checkAndIncrementRateLimit_def Let_def granted_def)
  next
    case m': (Some m')
    show ?thesis
    proof (cases "used_count c \<ge> period_limit p' m'")
      case True
      with Some m' call show ?thesis
        by (auto simp: checkAndIncrementRateLimit_def Let_def granted_def period_limit_def)
    next
      case False
      with Some m' call have d1:
        "rate_counters d1 = map (bump_counter (counter_id c)) (rate_counters d)"
        by (auto simp: checkAndIncrementRateLimit_def Let_def period_limit_def split: if_splits)
      show ?thesis
      proof (cases "in_window modelId p ws (now, modelId', p')")
        case True
        then have same: "modelId' = modelId" "p' = p" "windowStart p' now = ws"
          by (auto simp: in_window_def)
        with m m' have "m' = m" by simp
        with same Some d1 False show ?thesis
          by (auto simp: room_def find_bump_self)
      next
        case nw: False
        with c(1) have "\<not> counter_matches modelId p ws c"
          by (auto simp: in_window_def counter_matches_def)
        with d1 dist c(2) nw show ?thesis
          by (simp add: room_def find_bump_other)
      qed
    qed
  qed
qed

lemma run_checks_bound:
  assumes "run_checks d calls = (rs, d')"
    and "find (\<lambda>m. model_id m = modelId) (models d) = Some m"
    and "1 \<le> period_limit p m"
    and "distinct (map counter_id (rate_counters d))"
  shows "grants_in_window modelId p ws calls rs \<le> room d modelId p ws (period_limit p m)"
  using assms
proof (induction calls arbitrary: d rs)
  case Nil
  then show ?case by (simp add: grants_in_window_def)
next
  case (Cons call calls)
  obtain now modelId' p' where call: "call = (now, modelId', p')" by (cases call) auto
  obtain r d1 where r: "checkAndIncrementRateLimit d now modelId' p' = (r, d1)" by fastforce
  obtain rs1 where rs1: "run_checks d1 calls = (rs1, d')" and rs: "rs = r # rs1"
    using Cons.prems(1) call r by (auto split: prod.splits)
  have "grants_in_window modelId p ws calls rs1 \<le> room d1 modelId p ws (period_limit p m)"
    using Cons.IH [OF rs1] Cons.prems(2,3,4) r check_distinct [OF r] check_models [OF r] by simp
  moreover have "(if in_window modelId p ws (now, modelId', p') \<and> granted r then 1 else 0)
           + room d1 modelId p ws (period_limit p m) \<le> room d modelId p ws (period_limit p m)"
    using check_step [OF r Cons.prems(2,3,4)] .
  ultimately show ?case
    using call rs by (auto simp: grants_in_window_def split: if_splits)
qed


text \<open>
  Claim C5. Take a model whose \<^verbatim>\<open>per_minute_limit\<close> is at least 1 and any sequence of
  rate-limit checks, run one after the other from a store in which the minute window \<open>ws\<close>
  of the model has no counter yet (the checks may be for any model, period and time). Of the
  checks for this model and this minute window, at most \<^verbatim>\<open>per_minute_limit\<close> return
  \<^verbatim>\<open>allowed = true\<close>; and a check that returns \<^verbatim>\<open>allowed = false\<close> leaves the store as
  it was.
\<close>

theorem minute_grants_within_limit:
  assumes run: "run_checks d calls = (rs, d')"
    and m: "find (\<lambda>m. model_id m = modelId) (models d) = Some m"
    and lim: "1 \<le> per_minute_limit m"
    and ids: "distinct (map counter_id (rate_counters d))"
    and fresh: "find (counter_matches modelId minute ws) (rate_counters d) = None"
  shows "int (grants_in_window modelId minute ws calls rs) \<le> per_minute_limit m \<and>
         (\<forall>d0 now r d1. checkAndIncrementRateLimit d0 now modelId minute = (Resolve r, d1)
              \<and> \<not> allowed r \<longrightarrow> d1 = d0)"
proof
  have "grants_in_window modelId minute ws calls rs
          \<le> room d modelId minute ws (period_limit minute m)"
    using run_checks_bound [OF run m _ ids, of minute ws] lim by (simp add: period_limit_def)
  also have "room d modelId minute ws (period_limit minute m) = nat (per_minute_limit m)"
    using fresh by (simp add: room_def period_limit_def)
  finally show "int (grants_in_window modelId minute ws calls rs) \<le> per_minute_limit m"
    using lim by simp
next
  show "\<forall>d0 now r d1. checkAndIncrementRateLimit d0 now modelId minute = (Resolve r, d1)
              \<and> \<not> allowed r \<longrightarrow> d1 = d0"
    using denied_unchanged by blast
qed


theorem minute_grants_within_limit_witness:
  "int (grants_in_window ''google-primary-gemini-2.0-flash'' minute (IsoText 120000) three_calls
          (fst (run_checks (one_model_store 2 200) three_calls))) \<le> 2 \<and>
   map granted (fst (run_checks (one_model_store 2 200) three_calls)) = [True, True, False] \<and>
   snd (checkAndIncrementRateLimit (snd (run_checks (one_model_store 2 200) three_calls))
          179999 ''google-primary-gemini-2.0-flash'' minute)
     = snd (run_checks (one_model_store 2 200) three_calls)"
proof -
  let ?d = "one_model_store 2 200"
  let ?m = "\<lparr>model_id = ''google-primary-gemini-2.0-flash'',
             model_provider_id = ''google-primary'', model_name = ''gemini-2.0-flash'',
             per_minute_limit = 2, per_day_limit = 200, model_enabled = True\<rparr>"
  have run: "run_checks ?d three_calls =
               (fst (run_checks ?d three_calls), snd (run_checks ?d three_calls))"
    by simp
  have m: "find (\<lambda>m. model_id m = ''google-primary-gemini-2.0-flash'') (models ?d) = Some ?m"
    by (simp add: one_model_store_def)
  have lim: "1 \<le> per_minute_limit ?m" by simp
  have ids: "distinct (map counter_id (rate_counters ?d))"
    by (simp add: one_model_store_def)
  have fresh: "find (counter_matches ''google-primary-gemini-2.0-flash'' minute (IsoText 120000))
                 (rate_counters ?d) = None"
    by (simp add: one_model_store_def)
  have outcomes: "map granted (fst (run_checks ?d three_calls)) = [True, True, False]"
    by code_simp
  have last: "snd (checkAndIncrementRateLimit (snd (run_checks ?d three_calls))
          179999 ''google-primary-gemini-2.0-flash'' minute) = snd (run_checks ?d three_calls)"
    by code_simp
  from minute_grants_within_limit [OF run m lim ids fresh] outcomes last
  show ?thesis by simp
qed


text \<open>
  Claim C10. When the model exists and its window has no counter row yet, the check inserts
  a counter with \<^verbatim>\<open>used_count = 1\<close> and returns \<^verbatim>\<open>allowed = true\<close> with count 1, whatever
  the limits of the model are: they are not read on this path.
\<close>

theorem first_check_in_window_ignores_limit:
  assumes "\<exists>m \<in> set (models d). model_id m = modelId"
    and "find (counter_matches modelId p (windowStart p now)) (rate_counters d) = None"
  shows "checkAndIncrementRateLimit d now modelId p =
     (Resolve \<lparr>allowed = True, count = 1, limit = None\<rparr>,
      d\<lparr>rate_counters := rate_counters d @
          [\<lparr>counter_id = next_rowid (map counter_id (rate_counters d)),
            counter_model_id = modelId, counter_period = p,
            window_start = windowStart p now, used_count = 1\<rparr>]\<rparr>)"
  using assms by (simp add: checkAndIncrementRateLimit_def Let_def)

theorem first_check_in_window_ignores_limit_witness:
  "per_minute_limit (hd (models (one_model_store 0 0))) = 0 \<and>
   per_day_limit (hd (models (one_model_store 0 0))) = 0 \<and>
   fst (checkAndIncrementRateLimit (one_model_store 0 0) 120000
          ''google-primary-gemini-2.0-flash'' minute)
     = Resolve \<lparr>allowed = True, count = 1, limit = None\<rparr> \<and>
   map used_count (rate_counters (snd (checkAndIncrementRateLimit (one_model_store 0 0) 120000
          ''google-primary-gemini-2.0-flash'' minute))) = [1] \<and>
   fst (checkAndIncrementRateLimit (one_model_store 0 0) 120000
          ''google-primary-gemini-2.0-flash'' day)
     = Resolve \<lparr>allowed = True, count = 1, limit = None\<rparr>"
proof -
  let ?d = "one_model_store 0 0"
  have m: "\<exists>m \<in> set (models ?d). model_id m = ''google-primary-gemini-2.0-flash''"
    by (simp add: one_model_store_def)
  have fresh: "find (counter_matches ''google-primary-gemini-2.0-flash'' p (windowStart p 120000))
                 (rate_counters ?d) = None" for p
    by (simp add: one_model_store_def)
  have lims: "per_minute_limit (hd (models ?d)) = 0" "per_day_limit (hd (models ?d)) = 0"
    by (simp_all add: one_model_store_def)
  from first_check_in_window_ignores_limit [OF m fresh, of minute]
       first_check_in_window_ignores_limit [OF m fresh, of day] lims
  show ?thesis by (simp add: one_model_store_def)
qed

section \<open>Properties of claiming\<close>

text \<open>The order of \<^verbatim>\<open>claimNextJob\<close> is a strict weak order.\<close>

lemma text_less_asym: "text_less a b \<Longrightarrow> \<not> text_less b a"
  unfolding text_less_def by auto

lemma not_text_less:
  "\<not> text_less a b \<longleftrightarrow>
     utc_day b < utc_day a \<or>
     (utc_day b = utc_day a \<and>
        (separator b < separator a \<or> (separator b = separator a \<and> instant b \<le> instant a)))"
  unfolding text_less_def by auto

lemma text_less_negtrans: "\<not> text_less a b \<Longrightarrow> \<not> text_less b c \<Longrightarrow> \<not> text_less a c"
  unfolding not_text_less by (elim disjE conjE; simp)

lemma claim_before_asym: "claim_before a b \<Longrightarrow> \<not> claim_before b a"
  using text_less_asym by (auto simp: claim_before_def)

lemma not_claim_before:
  "\<not> claim_before a b \<longleftrightarrow>
     priority a < priority b \<or>
     (priority a = priority b \<and> \<not> text_less (created_at a) (created_at b))"
  unfolding claim_before_def by auto

lemma claim_before_negtrans:
  "\<not> claim_before a b \<Longrightarrow> \<not> claim_before b c \<Longrightarrow> \<not> claim_before a c"
  unfolding not_claim_before
  using text_less_negtrans [of "created_at a" "created_at b" "created_at c"]
  by (elim disjE conjE; simp)

lemma first_in_order_None: "first_in_order js = None \<longleftrightarrow> js = []"
  by (induction js) (auto split: option.splits)

lemma claim_before_irrefl: "\<not> claim_before a a"
  using claim_before_asym by blast

lemma first_in_order_Some:
  "first_in_order js = Some j \<Longrightarrow> j \<in> set js \<and> (\<forall>j' \<in> set js. \<not> claim_before j' j)"
proof (induction js arbitrary: j)
  case Nil
  then show ?case by simp
next
  case (Cons x xs)
  show ?case
  proof (cases "first_in_order xs")
    case None
    then have xs: "xs = []" by (simp add: first_in_order_None)
    from Cons.prems None have "j = x" by simp
    with xs show ?thesis by (simp add: claim_before_irrefl)
  next
    case (Some b)
    then have b: "b \<in> set xs" "\<forall>j' \<in> set xs. \<not> claim_before j' b" using Cons.IH by blast+
    show ?thesis
    proof (cases "claim_before b x")
      case True
      with Some Cons.prems have "j = b" by simp
      moreover have "\<not> claim_before x b" using True claim_before_asym by blast
      ultimately show ?thesis using b by simp
    next
      case False
      with Some Cons.prems have jx: "j = x" by simp
      have "\<forall>j' \<in> set xs. \<not> claim_before j' x"
        using b(2) False claim_before_negtrans by blast
      with jx show ?thesis by (simp add: claim_before_irrefl)
    qed
  qed
qed

lemma selectQuery_None: "selectQuery d = None \<longleftrightarrow> (\<forall>j \<in> set (jobs d). state j \<noteq> queued)"
  by (auto simp: selectQuery_def first_in_order_None filter_empty_conv)

lemma selectQuery_Some:
  assumes "selectQuery d = Some j"
  shows "j \<in> set (jobs d) \<and> state j = queued \<and>
         (\<forall>j' \<in> set (jobs d). state j' = queued \<longrightarrow>
            priority j' \<le> priority j \<and>
            (priority j' = priority j \<longrightarrow> \<not> text_less (created_at j') (created_at j)))"
proof -
  from assms have "j \<in> set (filter (\<lambda>j. state j = queued) (jobs d))"
    and nb: "\<forall>j' \<in> set (filter (\<lambda>j. state j = queued) (jobs d)). \<not> claim_before j' j"
    using first_in_order_Some unfolding selectQuery_def by blast+
  then show ?thesis by (auto simp: claim_before_def)
qed

lemma map_claim_row_id:
  "\<forall>r \<in> set js. \<not> (job_id r = jid \<and> state r = queued) \<Longrightarrow> map (claim_row jid now w) js = js"
  by (induction js) (auto simp: claim_row_def)

lemma claim_none:
  "selectQuery d = None \<Longrightarrow> claimNextJob JSON_parse between now d workerId = (Resolve None, d)"
  by (simp add: claimNextJob_def)

lemma claim_won:
  assumes j: "selectQuery d = Some j"
    and won: "\<exists>r \<in> set (jobs (between d)). job_id r = job_id j \<and> state r = queued"
  shows "jobs (snd (claimNextJob JSON_parse between now d workerId)) =
            map (\<lambda>r. if job_id r = job_id j \<and> state r = queued
                      then r\<lparr>state := processing, locked_at := Some (CURRENT_TIMESTAMP now),
                             worker_id := Some workerId, updated_at := CURRENT_TIMESTAMP now\<rparr>
                      else r) (jobs (between d))"
    and "JSON_parse (payload_json j) = Some v \<Longrightarrow>
               fst (claimNextJob JSON_parse between now d workerId) = Resolve (Some (j, v))"
proof -
  from won have n: "filter (\<lambda>r. job_id r = job_id j \<and> state r = queued) (jobs (between d)) \<noteq> []"
    by (auto simp: filter_empty_conv)
  have rowf: "claim_row (job_id j) now workerId =
        (\<lambda>r. if job_id r = job_id j \<and> state r = queued
                      then r\<lparr>state := processing, locked_at := Some (CURRENT_TIMESTAMP now),
                             worker_id := Some workerId, updated_at := CURRENT_TIMESTAMP now\<rparr>
                      else r)"
    by (auto simp: claim_row_def fun_eq_iff)
  from j n show "jobs (snd (claimNextJob JSON_parse between now d workerId)) =
            map (\<lambda>r. if job_id r = job_id j \<and> state r = queued
                      then r\<lparr>state := processing, locked_at := Some (CURRENT_TIMESTAMP now),
                             worker_id := Some workerId, updated_at := CURRENT_TIMESTAMP now\<rparr>
                      else r) (jobs (between d))"
    unfolding rowf [symmetric]
    by (simp add: claimNextJob_def Let_def split: option.splits)
  from j n show "JSON_parse (payload_json j) = Some v \<Longrightarrow>
               fst (claimNextJob JSON_parse between now d workerId) = Resolve (Some (j, v))"
    by (simp add: claimNextJob_def Let_def)
qed

lemma claim_lost:
  assumes j: "selectQuery d = Some j"
    and lost: "\<not> (\<exists>r \<in> set (jobs (between d)). job_id r = job_id j \<and> state r = queued)"
  shows "claimNextJob JSON_parse between now d workerId = (Resolve None, between d)"
proof -
  from lost have n: "filter (\<lambda>r. job_id r = job_id j \<and> state r = queued) (jobs (between d)) = []"
    by (auto simp: filter_empty_conv)
  from lost have "map (claim_row (job_id j) now workerId) (jobs (between d)) = jobs (between d)"
    using map_claim_row_id [of "jobs (between d)" "job_id j"] by blast
  with j n show ?thesis
    by (simp add: claimNextJob_def Let_def)
qed

text \<open>
  Claim C4. \<^verbatim>\<open>claimNextJob\<close> finds no row exactly when no job is queued, and then
  resolves to nil. Otherwise the row it selects is a queued job such that no queued job has
  a higher priority and none of the same priority an older \<^verbatim>\<open>created_at\<close>. If that job
  is still queued when the update runs, the update turns it (and no other row) into
  \<^verbatim>\<open>processing\<close> with \<^verbatim>\<open>locked_at\<close> the current time and \<^verbatim>\<open>worker_id\<close> the caller, and
  the call returns the job with its parsed payload; if it is no longer queued (another
  worker won), nothing is changed and the call resolves to nil.
\<close>

theorem claimNextJob_takes_first_queued:
  "(selectQuery d = None \<longleftrightarrow> (\<forall>j \<in> set (jobs d). state j \<noteq> queued)) \<and>
   (selectQuery d = None \<longrightarrow> claimNextJob JSON_parse between now d workerId = (Resolve None, d)) \<and>
   (\<forall>j. selectQuery d = Some j \<longrightarrow>
      j \<in> set (jobs d) \<and> state j = queued \<and>
      (\<forall>j' \<in> set (jobs d). state j' = queued \<longrightarrow>
          priority j' \<le> priority j \<and>
          (priority j' = priority j \<longrightarrow> \<not> text_less (created_at j') (created_at j))) \<and>
      ((\<exists>r \<in> set (jobs (between d)). job_id r = job_id j \<and> state r = queued) \<longrightarrow>
          jobs (snd (claimNextJob JSON_parse between now d workerId)) =
            map (\<lambda>r. if job_id r = job_id j \<and> state r = queued
                      then r\<lparr>state := processing, locked_at := Some (CURRENT_TIMESTAMP now),
                             worker_id := Some workerId, updated_at := CURRENT_TIMESTAMP now\<rparr>
                      else r) (jobs (between d)) \<and>
          (\<forall>v. JSON_parse (payload_json j) = Some v \<longrightarrow>
               fst (claimNextJob JSON_parse between now d workerId) = Resolve (Some (j, v)))) \<and>
      (\<not> (\<exists>r \<in> set (jobs (between d)). job_id r = job_id j \<and> state r = queued) \<longrightarrow>
          claimNextJob JSON_parse between now d workerId = (Resolve None, between d)))"
  using selectQuery_None [of d] claim_none [of d JSON_parse between now workerId]
    selectQuery_Some [of d] claim_won [where d = d and between = between and now = now
      and JSON_parse = JSON_parse and workerId = workerId]
    claim_lost [where d = d and between = between and now = now
      and JSON_parse = JSON_parse and workerId = workerId]
  by blast

text \<open>Another worker claims first.\<close>
definition rival :: "db \<Rightarrow> db" where
  "rival d = snd (claimNextJob parse_empty_object (\<lambda>d. d) 4999000 d ''worker-2'')"

theorem claimNextJob_takes_first_queued_witness:
  "selectQuery four_jobs = Some (job_row ''C'' ''fc'' ''h'' 5 queued 0 3 150) \<and>
   fst (claimNextJob parse_empty_object (\<lambda>d. d) 5000000 four_jobs ''worker-1'') =
     Resolve (Some (job_row ''C'' ''fc'' ''h'' 5 queued 0 3 150, JObject [])) \<and>
   map (\<lambda>r. (job_id r, state r, locked_at r, worker_id r))
       (jobs (snd (claimNextJob parse_empty_object (\<lambda>d. d) 5000000 four_jobs ''worker-1''))) =
     [(''A'', queued, None, None), (''B'', queued, None, None),
      (''C'', processing, Some (SqlText 5000), Some ''worker-1''), (''D'', failed, None, None)] \<and>
   claimNextJob parse_empty_object rival 5000000 four_jobs ''worker-1'' =
     (Resolve None, rival four_jobs)"
proof -
  let ?c = "job_row ''C'' ''fc'' ''h'' 5 queued 0 3 150"
  have sel: "selectQuery four_jobs = Some ?c"
    by code_simp
  have won: "\<exists>r \<in> set (jobs ((\<lambda>d. d) four_jobs)). job_id r = job_id ?c \<and> state r = queued"
    by code_simp
  have lost: "\<not> (\<exists>r \<in> set (jobs (rival four_jobs)). job_id r = job_id ?c \<and> state r = queued)"
    by code_simp
  have parse: "parse_empty_object (payload_json ?c) = Some (JObject [])"
    by code_simp
  note thm1 = claimNextJob_takes_first_queued
      [of four_jobs parse_empty_object "\<lambda>d. d" 5000000 "''worker-1''"]
  note thm2 = claimNextJob_takes_first_queued
      [of four_jobs parse_empty_object rival 5000000 "''worker-1''"]
  from thm1 sel won parse
  have a: "fst (claimNextJob parse_empty_object (\<lambda>d. d) 5000000 four_jobs ''worker-1'') =
     Resolve (Some (?c, JObject []))" by blast
  from thm1 sel won
  have "jobs (snd (claimNextJob parse_empty_object (\<lambda>d. d) 5000000 four_jobs ''worker-1'')) =
          map (\<lambda>r. if job_id r = job_id ?c \<and> state r = queued
                      then r\<lparr>state := processing, locked_at := Some (CURRENT_TIMESTAMP 5000000),
                             worker_id := Some ''worker-1'', updated_at := CURRENT_TIMESTAMP 5000000\<rparr>
                      else r) (jobs ((\<lambda>d. d) four_jobs))" by blast
  then have b: "map (\<lambda>r. (job_id r, state r, locked_at r, worker_id r))
       (jobs (snd (claimNextJob parse_empty_object (\<lambda>d. d) 5000000 four_jobs ''worker-1''))) =
     [(''A'', queued, None, None), (''B'', queued, None, None),
      (''C'', processing, Some (SqlText 5000), Some ''worker-1''), (''D'', failed, None, None)]"
    by (simp add: four_jobs_def job_row_def CURRENT_TIMESTAMP_def)
  from thm2 sel lost
  have c: "claimNextJob parse_empty_object rival 5000000 four_jobs ''worker-1'' =
     (Resolve None, rival four_jobs)" by blast
  from sel a b c show ?thesis by blast
qed

section \<open>Properties of the stale-job cleanup\<close>

text \<open>A lock text of \<^verbatim>\<open>CURRENT_TIMESTAMP\<close> that denotes an instant before the cut-off
  compares below the cut-off text.\<close>

lemma older_is_less:
  assumes "s * 1000 < c"
  shows "text_less (SqlText s) (toISOString c)"
proof -
  have "s div 86400 = (s * 1000) div 86400000" by simp
  also have "\<dots> \<le> c div 86400000" using assms by (intro zdiv_mono1) simp_all
  finally show ?thesis by (auto simp: text_less_def toISOString_def)
qed

lemma time_out_stale:
  assumes "state j = processing" "locked_at j = Some (SqlText s)" "s * 1000 < c"
  shows "time_out (toISOString c) now j =
           j\<lparr>state := failed, error := Some ''Job timed out'', locked_at := None,
             worker_id := None, updated_at := CURRENT_TIMESTAMP now\<rparr>"
  using assms older_is_less [of s c] by (simp add: time_out_def stale_def)

lemma time_out_other: "state j \<noteq> processing \<Longrightarrow> time_out cutoffTime now j = j"
  by (simp add: time_out_def stale_def)

lemma time_out_changes: "time_out cutoffTime now j \<noteq> j \<longleftrightarrow> stale cutoffTime j"
proof
  assume "time_out cutoffTime now j \<noteq> j"
  then show "stale cutoffTime j" by (cases "stale cutoffTime j") (simp_all add: time_out_def)
next
  assume st: "stale cutoffTime j"
  then have "state (time_out cutoffTime now j) = failed" by (simp add: time_out_def)
  moreover from st have "state j = processing" by (simp add: stale_def)
  ultimately have "state (time_out cutoffTime now j) \<noteq> state j" by simp
  then show "time_out cutoffTime now j \<noteq> j" by (rule contrapos_nn) simp
qed

lemma time_out_changes2: "j \<noteq> time_out cutoffTime now j \<longleftrightarrow> stale cutoffTime j"
proof -
  have "(j \<noteq> time_out cutoffTime now j) = (time_out cutoffTime now j \<noteq> j)" by (rule neq_commute)
  then show ?thesis by (simp only: time_out_changes)
qed

lemma count_changed:
  "length (filter (\<lambda>p. fst p \<noteq> snd p) (zip js (map (time_out cutoffTime now) js))) =
   length (filter (stale cutoffTime) js)"
  by (induction js) (simp_all add: time_out_changes2)

text \<open>
  Claim C8, as the code has it. \<^verbatim>\<open>cleanupStaleJobs\<close> keeps the rows in place and resolves
  to the number of rows it changed. Every row in state \<^verbatim>\<open>processing\<close> whose \<^verbatim>\<open>locked_at\<close>
  (written by \<^verbatim>\<open>claimNextJob\<close>) lies before now minus the timeout becomes \<^verbatim>\<open>failed\<close> with
  error \<^verbatim>\<open>Job timed out\<close>, its \<^verbatim>\<open>locked_at\<close> and \<^verbatim>\<open>worker_id\<close> cleared; every row that
  is not in state \<^verbatim>\<open>processing\<close> is left as it was.
\<close>

theorem cleanupStaleJobs_amended:
  "\<exists>n d'. cleanupStaleJobs d now timeoutMinutes = (Resolve n, d') \<and>
     length (jobs d') = length (jobs d) \<and>
     n = length (filter (\<lambda>p. fst p \<noteq> snd p) (zip (jobs d) (jobs d'))) \<and>
     (\<forall>i < length (jobs d).
        (\<forall>s. state (jobs d ! i) = processing \<and> locked_at (jobs d ! i) = Some (SqlText s) \<and>
             s * 1000 < now - timeoutMinutes * 60 * 1000 \<longrightarrow>
           jobs d' ! i = (jobs d ! i)\<lparr>state := failed, error := Some ''Job timed out'',
                            locked_at := None, worker_id := None,
                            updated_at := CURRENT_TIMESTAMP now\<rparr>) \<and>
        (state (jobs d ! i) \<noteq> processing \<longrightarrow> jobs d' ! i = jobs d ! i))"
proof -
  let ?c = "toISOString (now - timeoutMinutes * 60 * 1000)"
  have "\<forall>i < length (jobs d).
        (\<forall>s. state (jobs d ! i) = processing \<and> locked_at (jobs d ! i) = Some (SqlText s) \<and>
             s * 1000 < now - timeoutMinutes * 60 * 1000 \<longrightarrow>
           map (time_out ?c now) (jobs d) ! i = (jobs d ! i)\<lparr>state := failed, error := Some ''Job timed out'',
                            locked_at := None, worker_id := None,
                            updated_at := CURRENT_TIMESTAMP now\<rparr>) \<and>
        (state (jobs d ! i) \<noteq> processing \<longrightarrow> map (time_out ?c now) (jobs d) ! i = jobs d ! i)"
    using time_out_stale time_out_other by simp
  then show ?thesis
    by (simp add: cleanupStaleJobs_def Let_def count_changed)
qed

text \<open>
  Claim C8 as stated fails: a job locked at 22:13:20 is cleaned up at 22:18:20 with a
  timeout of ten minutes, although its lock is five minutes old (the stored text
  \<^verbatim>\<open>2023-11-14 22:13:20\<close> compares below the cut-off \<^verbatim>\<open>2023-11-14T22:08:20.000Z\<close> at the
  eleventh character), and the error written is \<^verbatim>\<open>Job timed out\<close>.
\<close>

theorem cleanupStaleJobs_counterexample:
  "locked_at claimed_job = Some (SqlText 1700000000) \<and>
   \<not> (1700000000 * 1000 < 1700000300000 - 10 * 60 * (1000::int)) \<and>
   cleanupStaleJobs one_claimed 1700000300000 10 =
     (Resolve 1,
      one_claimed\<lparr>jobs := [claimed_job\<lparr>state := failed, error := Some ''Job timed out'',
                                locked_at := None, worker_id := None,
                                updated_at := SqlText 1700000300\<rparr>]\<rparr>) \<and>
   ''Job timed out'' \<noteq> ''timed out''"
  by (simp add: cleanupStaleJobs_def Let_def one_claimed_def claimed_job_def job_row_def
        time_out_def stale_def text_less_def toISOString_def CURRENT_TIMESTAMP_def
        one_model_store_def)

theorem cleanupStaleJobs_amended_witness:
  "fst (cleanupStaleJobs three_states 1700000300000 10) = Resolve 1 \<and>
   map (\<lambda>j. (job_id j, state j, error j, locked_at j, worker_id j))
       (jobs (snd (cleanupStaleJobs three_states 1700000300000 10))) =
     [(''P'', failed, Some ''Job timed out'', None, None),
      (''Q'', queued, None, None, None),
      (''S'', succeeded, None, None, None)]"
proof -
  let ?js = "jobs three_states"
  obtain n d' where run: "cleanupStaleJobs three_states 1700000300000 10 = (Resolve n, d')"
    and len: "length (jobs d') = length ?js"
    and n: "n = length (filter (\<lambda>p. fst p \<noteq> snd p) (zip ?js (jobs d')))"
    and rows: "\<forall>i < length ?js.
        (\<forall>s. state (?js ! i) = processing \<and> locked_at (?js ! i) = Some (SqlText s) \<and>
             s * 1000 < 1700000300000 - 10 * 60 * 1000 \<longrightarrow>
           jobs d' ! i = (?js ! i)\<lparr>state := failed, error := Some ''Job timed out'',
                            locked_at := None, worker_id := None,
                            updated_at := CURRENT_TIMESTAMP 1700000300000\<rparr>) \<and>
        (state (?js ! i) \<noteq> processing \<longrightarrow> jobs d' ! i = ?js ! i)"
    using cleanupStaleJobs_amended [of three_states 1700000300000 10] by blast
  have l3: "length ?js = 3" by (simp add: three_states_def)
  have p: "state (?js ! 0) = processing \<and> locked_at (?js ! 0) = Some (SqlText 1699900000) \<and>
           1699900000 * 1000 < 1700000300000 - 10 * 60 * (1000::int)"
    by (simp add: three_states_def job_row_def)
  have q: "state (?js ! 1) \<noteq> processing" "state (?js ! 2) \<noteq> processing"
    by (simp_all add: three_states_def job_row_def)
  from len l3 obtain a b c where abc: "jobs d' = [a, b, c]"
    by (auto simp: length_Suc_conv numeral_3_eq_3)
  from rows l3 p have "jobs d' ! 0 = (?js ! 0)\<lparr>state := failed, error := Some ''Job timed out'',
                            locked_at := None, worker_id := None,
                            updated_at := CURRENT_TIMESTAMP 1700000300000\<rparr>"
    by simp
  then have r0: "a = (?js ! 0)\<lparr>state := failed, error := Some ''Job timed out'',
                            locked_at := None, worker_id := None,
                            updated_at := CURRENT_TIMESTAMP 1700000300000\<rparr>"
    by (simp add: abc)
  from rows l3 q have "jobs d' ! 1 = ?js ! 1" and "jobs d' ! 2 = ?js ! 2"
    by simp_all
  then have r1: "b = ?js ! 1" and r2: "c = ?js ! 2"
    by (simp_all add: abc)
  from abc r0 r1 r2 have d': "jobs d' = [(?js ! 0)\<lparr>state := failed, error := Some ''Job timed out'',
                            locked_at := None, worker_id := None,
                            updated_at := CURRENT_TIMESTAMP 1700000300000\<rparr>, ?js ! 1, ?js ! 2]"
    by simp
  from n have "n = 1" unfolding d' by (simp add: three_states_def job_row_def)
  with run d' show ?thesis by (simp add: three_states_def job_row_def)
qed

section \<open>Properties of the error handling of the router\<close>

lemma find_replaced:
  "P y \<Longrightarrow> find P (filter (\<lambda>x. \<not> P x) xs @ [y]) = Some y"
  by (induction xs) auto

lemma backoff_set:
  assumes "\<exists>p \<in> set (providers d). provider_id p = providerId"
  shows "fst (setProviderBackoff d providerId untilTime why) = Resolve () \<and>
         backoff_of (snd (setProviderBackoff d providerId untilTime why)) providerId =
           Some \<lparr>backoff_provider_id = providerId, until = untilTime, reason = why\<rparr>"
  using assms
    find_replaced [of "\<lambda>b. backoff_provider_id b = providerId"
       "\<lparr>backoff_provider_id = providerId, until = untilTime, reason = why\<rparr>" "provider_backoff d"]
  by (simp add: setProviderBackoff_def backoff_of_def)

lemma handle_quota:
  "quota_signal err \<Longrightarrow> handleModelError d now m err =
     setProviderBackoff d (model_provider_id (fst m)) (toISOString (now + 60 * 60 * 1000))
       ''Rate limit exceeded''"
  by (simp add: handleModelError_def Let_def quota_signal_def)

lemma handle_auth:
  "\<not> quota_signal err \<Longrightarrow> auth_signal err \<Longrightarrow> handleModelError d now m err =
     setProviderBackoff d (model_provider_id (fst m)) (toISOString (now + 4 * 60 * 60 * 1000))
       ''Authentication failed''"
  by (simp add: handleModelError_def Let_def quota_signal_def auth_signal_def)

lemma handle_service:
  "\<not> quota_signal err \<Longrightarrow> \<not> auth_signal err \<Longrightarrow> service_signal err \<Longrightarrow>
   handleModelError d now m err =
     setProviderBackoff d (model_provider_id (fst m)) (toISOString (now + 15 * 60 * 1000))
       ''Service unavailable''"
  by (auto simp: handleModelError_def Let_def quota_signal_def auth_signal_def service_signal_def)

lemma handle_other:
  "\<not> quota_signal err \<Longrightarrow> \<not> auth_signal err \<Longrightarrow> \<not> service_signal err \<Longrightarrow>
   handleModelError d now m err = (Resolve (), d)"
  by (auto simp: handleModelError_def Let_def quota_signal_def auth_signal_def service_signal_def
      split: option.splits)

text \<open>
  Claim C6, as the code has it. The error is classified on its lower-cased message and its
  status, and the first of three tests that holds decides the back-off of the provider:
  60 minutes when the message contains \<^verbatim>\<open>quota\<close>, \<^verbatim>\<open>rate limit\<close> or \<^verbatim>\<open>429\<close> or the status
  is 429; else 240 minutes when the message contains \<^verbatim>\<open>auth\<close>, \<^verbatim>\<open>api key\<close> or
  \<^verbatim>\<open>unauthorized\<close> or the status is 401; else 15 minutes when the message contains
  \<^verbatim>\<open>service unavailable\<close>, \<^verbatim>\<open>503\<close>, \<^verbatim>\<open>502\<close> or \<^verbatim>\<open>500\<close> or the status is at least 500;
  else the store is left as it is.
\<close>

theorem handleModelError_backoff:
  assumes "\<exists>p \<in> set (providers d). provider_id p = model_provider_id (fst m)"
  shows
   "(quota_signal err \<longrightarrow>
       backoff_of (snd (handleModelError d now m err)) (model_provider_id (fst m)) =
         Some \<lparr>backoff_provider_id = model_provider_id (fst m),
               until = toISOString (now + 60 * 60 * 1000), reason = ''Rate limit exceeded''\<rparr>) \<and>
    (\<not> quota_signal err \<and> auth_signal err \<longrightarrow>
       backoff_of (snd (handleModelError d now m err)) (model_provider_id (fst m)) =
         Some \<lparr>backoff_provider_id = model_provider_id (fst m),
               until = toISOString (now + 240 * 60 * 1000), reason = ''Authentication failed''\<rparr>) \<and>
    (\<not> quota_signal err \<and> \<not> auth_signal err \<and> service_signal err \<longrightarrow>
       backoff_of (snd (handleModelError d now m err)) (model_provider_id (fst m)) =
         Some \<lparr>backoff_provider_id = model_provider_id (fst m),
               until = toISOString (now + 15 * 60 * 1000), reason = ''Service unavailable''\<rparr>) \<and>
    (\<not> quota_signal err \<and> \<not> auth_signal err \<and> \<not> service_signal err \<longrightarrow>
       handleModelError d now m err = (Resolve (), d))"
  using backoff_set [OF assms] handle_quota [of err d now m] handle_auth [of err d now m]
    handle_service [of err d now m] handle_other [of err d now m]
  by simp

text \<open>
  Claim C6 as stated fails: status 403 with the message \<^verbatim>\<open>Forbidden\<close> and a
  \<^verbatim>\<open>network timeout\<close> without status set no back-off, while status 501 sets 15 minutes and
  the message \<^verbatim>\<open>HTTP 429\<close> without status sets 60 minutes.
\<close>

theorem handleModelError_counterexample:
  "handleModelError (one_model_store 10 200) 0 flash
      \<lparr>message = ''Forbidden'', code = None, status = Some 403\<rparr>
     = (Resolve (), one_model_store 10 200) \<and>
   handleModelError (one_model_store 10 200) 0 flash
      \<lparr>message = ''network timeout'', code = None, status = None\<rparr>
     = (Resolve (), one_model_store 10 200) \<and>
   provider_backoff (snd (handleModelError (one_model_store 10 200) 0 flash
      \<lparr>message = ''Not Implemented'', code = None, status = Some 501\<rparr>))
     = [\<lparr>backoff_provider_id = ''google-primary'', until = IsoText (15 * 60 * 1000),
         reason = ''Service unavailable''\<rparr>] \<and>
   provider_backoff (snd (handleModelError (one_model_store 10 200) 0 flash
      \<lparr>message = ''HTTP 429'', code = None, status = None\<rparr>))
     = [\<lparr>backoff_provider_id = ''google-primary'', until = IsoText (60 * 60 * 1000),
         reason = ''Rate limit exceeded''\<rparr>]"
  by code_simp

theorem handleModelError_backoff_witness:
  "backoff_of (snd (handleModelError (one_model_store 10 200) 0 flash
       \<lparr>message = ''Quota exceeded for project'', code = None, status = Some 429\<rparr>)) ''google-primary''
     = Some \<lparr>backoff_provider_id = ''google-primary'', until = IsoText 3600000,
             reason = ''Rate limit exceeded''\<rparr> \<and>
   backoff_of (snd (handleModelError (one_model_store 10 200) 0 flash
       \<lparr>message = ''API key not valid'', code = None, status = Some 400\<rparr>)) ''google-primary''
     = Some \<lparr>backoff_provider_id = ''google-primary'', until = IsoText 14400000,
             reason = ''Authentication failed''\<rparr> \<and>
   backoff_of (snd (handleModelError (one_model_store 10 200) 0 flash
       \<lparr>message = ''Service Unavailable'', code = None, status = Some 503\<rparr>)) ''google-primary''
     = Some \<lparr>backoff_provider_id = ''google-primary'', until = IsoText 900000,
             reason = ''Service unavailable''\<rparr> \<and>
   handleModelError (one_model_store 10 200) 0 flash
       \<lparr>message = ''AI returned empty summary'', code = None, status = None\<rparr>
     = (Resolve (), one_model_store 10 200)"
proof -
  let ?d = "one_model_store 10 200"
  let ?e1 = "\<lparr>message = ''Quota exceeded for project'', code = None, status = Some 429\<rparr>"
  let ?e2 = "\<lparr>message = ''API key not valid'', code = None, status = Some 400\<rparr>"
  let ?e3 = "\<lparr>message = ''Service Unavailable'', code = None, status = Some 503\<rparr>"
  let ?e4 = "\<lparr>message = ''AI returned empty summary'', code = None, status = None\<rparr>"
  have p: "\<exists>p \<in> set (providers ?d). provider_id p = model_provider_id (fst flash)"
    by (simp add: one_model_store_def flash_def)
  have pid: "model_provider_id (fst flash) = ''google-primary''"
    by (simp add: one_model_store_def flash_def)
  have s1: "quota_signal ?e1" by code_simp
  have s2: "\<not> quota_signal ?e2 \<and> auth_signal ?e2" by code_simp
  have s3: "\<not> quota_signal ?e3 \<and> \<not> auth_signal ?e3 \<and> service_signal ?e3" by code_simp
  have s4: "\<not> quota_signal ?e4 \<and> \<not> auth_signal ?e4 \<and> \<not> service_signal ?e4" by code_simp
  from handleModelError_backoff [OF p, of ?e1 0] s1
       handleModelError_backoff [OF p, of ?e2 0] s2
       handleModelError_backoff [OF p, of ?e3 0] s3
       handleModelError_backoff [OF p, of ?e4 0] s4
  show ?thesis by (simp add: pid toISOString_def)
qed

section \<open>Properties of enqueueing\<close>

lemma first_in_state_None:
  "first_in_state d fileId h st = None \<longleftrightarrow>
     (\<forall>j \<in> set (jobs d). \<not> (dedupe_key j = fileId \<and> content_hash j = h \<and> state j = st))"
  by (auto simp: first_in_state_def find_None_iff)

lemma first_in_state_Some:
  "first_in_state d fileId h st = Some e \<Longrightarrow>
     e \<in> set (jobs d) \<and> dedupe_key e = fileId \<and> content_hash e = h \<and> state e = st"
  using find_SomeD [of "\<lambda>j. dedupe_key j = fileId \<and> content_hash j = h \<and> state j = st" "jobs d" e]
  by (simp add: first_in_state_def)

lemma checkQuery_None:
  "checkQuery d fileId h = None \<longleftrightarrow> (\<forall>j \<in> set (jobs d). \<not> dedupe_match fileId h j)"
proof
  assume "checkQuery d fileId h = None"
  then have "first_in_state d fileId h processing = None"
    "first_in_state d fileId h queued = None" "first_in_state d fileId h succeeded = None"
    by (auto simp: checkQuery_def split: option.splits)
  then show "\<forall>j \<in> set (jobs d). \<not> dedupe_match fileId h j"
    unfolding first_in_state_None dedupe_match_def by blast
next
  assume "\<forall>j \<in> set (jobs d). \<not> dedupe_match fileId h j"
  then have "first_in_state d fileId h processing = None"
    "first_in_state d fileId h queued = None" "first_in_state d fileId h succeeded = None"
    unfolding first_in_state_None dedupe_match_def by blast+
  then show "checkQuery d fileId h = None" by (simp add: checkQuery_def)
qed

lemma found_active:
  assumes "first_in_state d fileId h st = Some e" "st \<noteq> succeeded" "st = processing \<or> st = queued"
  shows "e \<in> set (jobs d) \<and> dedupe_match fileId h e \<and>
         (state e = succeeded \<longrightarrow>
            (\<forall>j \<in> set (jobs d). dedupe_match fileId h j \<longrightarrow> state j = succeeded))"
proof -
  from first_in_state_Some [OF assms(1)]
  have e: "e \<in> set (jobs d)" "dedupe_key e = fileId" "content_hash e = h" "state e = st"
    by blast+
  from e(4) assms(2) have "state e \<noteq> succeeded" by simp
  moreover from e assms(3) have "dedupe_match fileId h e" unfolding dedupe_match_def by blast
  ultimately show ?thesis using e(1) by blast
qed

lemma found_succeeded:
  assumes np: "first_in_state d fileId h processing = None"
    and nq: "first_in_state d fileId h queued = None"
    and s: "first_in_state d fileId h succeeded = Some e"
  shows "e \<in> set (jobs d) \<and> dedupe_match fileId h e \<and>
         (state e = succeeded \<longrightarrow>
            (\<forall>j \<in> set (jobs d). dedupe_match fileId h j \<longrightarrow> state j = succeeded))"
proof -
  from first_in_state_Some [OF s]
  have e: "e \<in> set (jobs d)" "dedupe_key e = fileId" "content_hash e = h" "state e = succeeded"
    by blast+
  then have m: "dedupe_match fileId h e" unfolding dedupe_match_def by blast
  have "\<forall>j \<in> set (jobs d). dedupe_match fileId h j \<longrightarrow> state j = succeeded"
  proof (intro ballI impI)
    fix j assume j: "j \<in> set (jobs d)" "dedupe_match fileId h j"
    from np j(1) have "\<not> (dedupe_key j = fileId \<and> content_hash j = h \<and> state j = processing)"
      unfolding first_in_state_None by blast
    moreover from nq j(1) have "\<not> (dedupe_key j = fileId \<and> content_hash j = h \<and> state j = queued)"
      unfolding first_in_state_None by blast
    ultimately show "state j = succeeded" using j(2) unfolding dedupe_match_def by blast
  qed
  with e(1) m show ?thesis by blast
qed

text \<open>The row found is of the key; it is a succeeded one only when the key has no queued
  and no processing row.\<close>

lemma checkQuery_Some:
  assumes "checkQuery d fileId h = Some e"
  shows "e \<in> set (jobs d) \<and> dedupe_match fileId h e \<and>
         (state e = succeeded \<longrightarrow>
            (\<forall>j \<in> set (jobs d). dedupe_match fileId h j \<longrightarrow> state j = succeeded))"
proof (cases "first_in_state d fileId h processing")
  case (Some p)
  with assms have "first_in_state d fileId h processing = Some e" by (simp add: checkQuery_def)
  then show ?thesis by (rule found_active) simp_all
next
  case np: None
  show ?thesis
  proof (cases "first_in_state d fileId h queued")
    case (Some q)
    with np assms have "first_in_state d fileId h queued = Some e" by (simp add: checkQuery_def)
    then show ?thesis by (rule found_active) simp_all
  next
    case nq: None
    with np assms have "first_in_state d fileId h succeeded = Some e"
      by (simp add: checkQuery_def)
    with np nq show ?thesis by (rule found_succeeded)
  qed
qed

lemma enqueue_existing:
  assumes "check_failure env = None"
    and "checkQuery d fileId (digest (JSON_stringify jsonData)) = Some e"
  shows "enqueueJob digest env now d fileId jsonData prio maxAttempts =
     (if state e = succeeded
      then (Resolve \<lparr>reply_jobId = job_id e, reply_status = already_completed,
                     reply_result = result e\<rparr>, d)
      else (Resolve \<lparr>reply_jobId = job_id e, reply_status = already_queued,
                     reply_result = None\<rparr>, d))"
  using assms by (simp add: enqueueJob_def generateContentHash_def Let_def)

text \<open>After a lookup that found nothing, the reply follows the insert and the re-read.\<close>

lemma enqueue_absent:
  assumes "check_failure env = None"
    and "checkQuery d fileId (digest (JSON_stringify jsonData)) = None"
  shows "enqueueJob digest env now d fileId jsonData prio maxAttempts =
     (case run_insert (insert_failure env) (before_insert env d)
             (new_job (randomUUID env) fileId (digest (JSON_stringify jsonData))
                (JSON_stringify jsonData) prio maxAttempts now) of
        Inr d2 \<Rightarrow>
          (Resolve \<lparr>reply_jobId = randomUUID env, reply_status = enqueued, reply_result = None\<rparr>, d2)
      | Inl err \<Rightarrow>
          if code err = Some ''SQLITE_CONSTRAINT''
          then (case reread_failure env of
                  Some findErr \<Rightarrow> (Reject findErr, before_reread env (before_insert env d))
                | None \<Rightarrow>
                   (case checkQuery (before_reread env (before_insert env d)) fileId
                           (digest (JSON_stringify jsonData)) of
                      Some foundJob \<Rightarrow>
                        (Resolve \<lparr>reply_jobId = job_id foundJob, reply_status = already_queued,
                                  reply_result = None\<rparr>, before_reread env (before_insert env d))
                    | None \<Rightarrow>
                        (Reject (Error ''Constraint violation but job not found''),
                         before_reread env (before_insert env d))))
          else (Reject err, before_insert env d))"
  using assms
  by (simp add: enqueueJob_def generateContentHash_def Let_def split: sum.splits option.splits)

lemma enqueue_check_error:
  "check_failure env = Some err \<Longrightarrow>
   enqueueJob digest env now d fileId jsonData prio maxAttempts = (Reject err, d)"
  by (simp add: enqueueJob_def Let_def)

lemma run_insert_None:
  "run_insert None d1 new =
     (if insert_conflict (jobs d1) new then Inl (SQLITE_CONSTRAINT ''UNIQUE constraint failed'')
      else Inr (d1\<lparr>jobs := jobs d1 @ [new]\<rparr>))"
  by (simp add: run_insert_def)

lemma run_insert_Inr:
  "run_insert failure d1 new = Inr d2 \<Longrightarrow> d2 = d1\<lparr>jobs := jobs d1 @ [new]\<rparr>"
  by (auto simp: run_insert_def split: option.splits if_splits)

lemma enqueue_alone:
  assumes "checkQuery d fileId (digest (JSON_stringify jsonData)) = None"
    and "\<not> insert_conflict (jobs d)
            (new_job u fileId (digest (JSON_stringify jsonData)) (JSON_stringify jsonData) prio maxAttempts now)"
  shows "enqueueJob digest (alone\<lparr>randomUUID := u\<rparr>) now d fileId jsonData prio maxAttempts =
     (Resolve \<lparr>reply_jobId = u, reply_status = enqueued, reply_result = None\<rparr>,
      d\<lparr>jobs := jobs d @
         [new_job u fileId (digest (JSON_stringify jsonData)) (JSON_stringify jsonData) prio maxAttempts now]\<rparr>)"
  using assms
  by (simp add: enqueueJob_def generateContentHash_def Let_def run_insert_def alone_def)

lemma jobs_first_submitted: "jobs first_submitted = [first_job]"
proof -
  have "checkQuery (one_model_store 10 200) ''file-1'' (sha256_hex (JSON_stringify small_payload)) = None"
    by (simp add: checkQuery_def first_in_state_def one_model_store_def)
  moreover have "\<not> insert_conflict (jobs (one_model_store 10 200))
     (new_job ''J1'' ''file-1'' (sha256_hex (JSON_stringify small_payload))
        (JSON_stringify small_payload) 1 3 1700000000000)"
    by (simp add: insert_conflict_def one_model_store_def)
  ultimately show ?thesis
    unfolding first_submitted_def
    by (simp add: enqueue_alone first_job_def payload_hash_def one_model_store_def)
qed

lemma jobs_first_claimed:
  "jobs first_claimed =
     [first_job\<lparr>state := processing, locked_at := Some (SqlText 1700000001),
                 worker_id := Some ''worker-1'', updated_at := SqlText 1700000001\<rparr>]"
  unfolding first_claimed_def
  by (simp add: claimNextJob_def selectQuery_def jobs_first_submitted first_job_def new_job_def
      Let_def claim_row_def parse_small_def CURRENT_TIMESTAMP_def)

lemma jobs_first_timed_out:
  "jobs first_timed_out =
     [first_job\<lparr>state := failed, error := Some ''Job timed out'', locked_at := None,
                 worker_id := None, updated_at := SqlText 1700000700\<rparr>]"
  unfolding first_timed_out_def
  by (simp add: cleanupStaleJobs_def jobs_first_claimed first_job_def new_job_def Let_def
      time_out_def stale_def text_less_def toISOString_def CURRENT_TIMESTAMP_def)

lemma jobs_second_submitted:
  "jobs second_submitted =
     [first_job\<lparr>state := failed, error := Some ''Job timed out'', locked_at := None,
                 worker_id := None, updated_at := SqlText 1700000700\<rparr>, second_job]"
proof -
  have "checkQuery first_timed_out ''file-1'' (sha256_hex (JSON_stringify small_payload)) = None"
    by (simp add: checkQuery_def first_in_state_def jobs_first_timed_out first_job_def new_job_def)
  moreover have "\<not> insert_conflict (jobs first_timed_out)
     (new_job ''J2'' ''file-1'' (sha256_hex (JSON_stringify small_payload))
        (JSON_stringify small_payload) 1 3 1700000710000)"
    by (simp add: insert_conflict_def jobs_first_timed_out first_job_def new_job_def active_def)
  ultimately show ?thesis
    unfolding second_submitted_def
    by (simp add: enqueue_alone jobs_first_timed_out second_job_def payload_hash_def)
qed

lemma jobs_late_success:
  "jobs late_success =
     [first_job\<lparr>state := succeeded, result := Some ''SUMMARY'', error := None, locked_at := None,
                 worker_id := None, updated_at := SqlText 1700000720\<rparr>, second_job]"
  unfolding late_success_def
  by (simp add: updateJobStatus_def update_conflict_def jobs_second_submitted set_status_def
      first_job_def second_job_def new_job_def CURRENT_TIMESTAMP_def)

text \<open>
  Claim C7, as the code has it. Let \<open>h\<close> be the digest of the stringified payload.
  When a job of the key \<open>(fileId, h)\<close> is queued or processing, \<^verbatim>\<open>enqueueJob\<close> resolves to
  \<^verbatim>\<open>already_queued\<close> with the id of such a job; when none is, but one has succeeded, to
  \<^verbatim>\<open>already_completed\<close> with the id and stored result of a succeeded one; the store is not
  touched. The lookup finds nothing exactly when the key has no queued, processing or
  succeeded job; then, when the insert goes through, the new row is appended and the reply
  is \<^verbatim>\<open>enqueued\<close> with the new id. When the insert fails with \<^verbatim>\<open>SQLITE_CONSTRAINT\<close> (which
  it does when another request has inserted the key in between), the lookup is run again:
  the reply is \<^verbatim>\<open>already_queued\<close> with the id of the row found, or a rejection when none
  is found. Every other error rejects the promise with that error: an error of the first
  lookup, an error of the insert with another code, and an error of the second lookup.
\<close>

theorem enqueueJob_deduplicates:
  assumes "h = digest (JSON_stringify jsonData)"
    and "new = new_job (randomUUID env) fileId h (JSON_stringify jsonData) prio maxAttempts now"
    and "d1 = before_insert env d"
    and "d3 = before_reread env d1"
    and "ins = run_insert (insert_failure env) d1 new"
    and "out = enqueueJob digest env now d fileId jsonData prio maxAttempts"
  shows
   "(check_failure env = None \<and>
     (\<exists>j \<in> set (jobs d). dedupe_match fileId h j \<and> state j \<noteq> succeeded) \<longrightarrow>
       (\<exists>e \<in> set (jobs d). dedupe_match fileId h e \<and> state e \<noteq> succeeded \<and>
          out = (Resolve \<lparr>reply_jobId = job_id e, reply_status = already_queued,
                          reply_result = None\<rparr>, d))) \<and>
    (check_failure env = None \<and>
     (\<exists>j \<in> set (jobs d). dedupe_match fileId h j) \<and>
     \<not> (\<exists>j \<in> set (jobs d). dedupe_match fileId h j \<and> state j \<noteq> succeeded) \<longrightarrow>
       (\<exists>e \<in> set (jobs d). dedupe_match fileId h e \<and> state e = succeeded \<and>
          out = (Resolve \<lparr>reply_jobId = job_id e, reply_status = already_completed,
                          reply_result = result e\<rparr>, d))) \<and>
    (checkQuery d fileId h = None \<longleftrightarrow> (\<forall>j \<in> set (jobs d). \<not> dedupe_match fileId h j)) \<and>
    (insert_failure env = None \<longrightarrow>
       ins = (if insert_conflict (jobs d1) new
              then Inl (SQLITE_CONSTRAINT ''UNIQUE constraint failed'')
              else Inr (d1\<lparr>jobs := jobs d1 @ [new]\<rparr>))) \<and>
    (\<forall>d2. check_failure env = None \<and> checkQuery d fileId h = None \<and> ins = Inr d2 \<longrightarrow>
        d2 = d1\<lparr>jobs := jobs d1 @ [new]\<rparr> \<and>
        out = (Resolve \<lparr>reply_jobId = randomUUID env, reply_status = enqueued,
                        reply_result = None\<rparr>, d2)) \<and>
    (\<forall>err f. check_failure env = None \<and> checkQuery d fileId h = None \<and> ins = Inl err \<and>
         code err = Some ''SQLITE_CONSTRAINT'' \<and> reread_failure env = None \<and>
         checkQuery d3 fileId h = Some f \<longrightarrow>
        out = (Resolve \<lparr>reply_jobId = job_id f, reply_status = already_queued,
                        reply_result = None\<rparr>, d3)) \<and>
    (\<forall>err. check_failure env = None \<and> checkQuery d fileId h = None \<and> ins = Inl err \<and>
         code err = Some ''SQLITE_CONSTRAINT'' \<and> reread_failure env = None \<and>
         checkQuery d3 fileId h = None \<longrightarrow>
        out = (Reject (Error ''Constraint violation but job not found''), d3)) \<and>
    (\<forall>err. check_failure env = Some err \<longrightarrow> out = (Reject err, d)) \<and>
    (\<forall>err. check_failure env = None \<and> checkQuery d fileId h = None \<and> ins = Inl err \<and>
         code err \<noteq> Some ''SQLITE_CONSTRAINT'' \<longrightarrow>
        out = (Reject err, d1)) \<and>
    (\<forall>err findErr. check_failure env = None \<and> checkQuery d fileId h = None \<and> ins = Inl err \<and>
         code err = Some ''SQLITE_CONSTRAINT'' \<and> reread_failure env = Some findErr \<longrightarrow>
        out = (Reject findErr, d3))"
proof -
  have existing: "out = (if state e = succeeded
      then (Resolve \<lparr>reply_jobId = job_id e, reply_status = already_completed,
                     reply_result = result e\<rparr>, d)
      else (Resolve \<lparr>reply_jobId = job_id e, reply_status = already_queued,
                     reply_result = None\<rparr>, d))"
    if "check_failure env = None" "checkQuery d fileId h = Some e" for e
    using that unfolding assms by (rule enqueue_existing)
  have absent: "out = (case ins of
        Inr d2 \<Rightarrow>
          (Resolve \<lparr>reply_jobId = randomUUID env, reply_status = enqueued, reply_result = None\<rparr>, d2)
      | Inl err \<Rightarrow>
          if code err = Some ''SQLITE_CONSTRAINT''
          then (case reread_failure env of
                  Some findErr \<Rightarrow> (Reject findErr, d3)
                | None \<Rightarrow>
                   (case checkQuery d3 fileId h of
                      Some foundJob \<Rightarrow>
                        (Resolve \<lparr>reply_jobId = job_id foundJob, reply_status = already_queued,
                                  reply_result = None\<rparr>, d3)
                    | None \<Rightarrow>
                        (Reject (Error ''Constraint violation but job not found''), d3)))
          else (Reject err, d1))"
    if "check_failure env = None" "checkQuery d fileId h = None"
    using that unfolding assms by (rule enqueue_absent)
  have c1: "check_failure env = None \<and>
     (\<exists>j \<in> set (jobs d). dedupe_match fileId h j \<and> state j \<noteq> succeeded) \<longrightarrow>
       (\<exists>e \<in> set (jobs d). dedupe_match fileId h e \<and> state e \<noteq> succeeded \<and>
          out = (Resolve \<lparr>reply_jobId = job_id e, reply_status = already_queued,
                          reply_result = None\<rparr>, d))"
  proof
    assume a: "check_failure env = None \<and>
       (\<exists>j \<in> set (jobs d). dedupe_match fileId h j \<and> state j \<noteq> succeeded)"
    then have "checkQuery d fileId h \<noteq> None" using checkQuery_None [of d fileId h] by blast
    then obtain e where e: "checkQuery d fileId h = Some e" by blast
    from checkQuery_Some [OF e] a have "e \<in> set (jobs d)" "dedupe_match fileId h e"
      "state e \<noteq> succeeded" by blast+
    moreover from existing [OF _ e] a \<open>state e \<noteq> succeeded\<close>
    have "out = (Resolve \<lparr>reply_jobId = job_id e, reply_status = already_queued,
                          reply_result = None\<rparr>, d)" by simp
    ultimately show "\<exists>e \<in> set (jobs d). dedupe_match fileId h e \<and> state e \<noteq> succeeded \<and>
          out = (Resolve \<lparr>reply_jobId = job_id e, reply_status = already_queued,
                          reply_result = None\<rparr>, d)" by blast
  qed
  have c2: "check_failure env = None \<and>
     (\<exists>j \<in> set (jobs d). dedupe_match fileId h j) \<and>
     \<not> (\<exists>j \<in> set (jobs d). dedupe_match fileId h j \<and> state j \<noteq> succeeded) \<longrightarrow>
       (\<exists>e \<in> set (jobs d). dedupe_match fileId h e \<and> state e = succeeded \<and>
          out = (Resolve \<lparr>reply_jobId = job_id e, reply_status = already_completed,
                          reply_result = result e\<rparr>, d))"
  proof
    assume a: "check_failure env = None \<and>
     (\<exists>j \<in> set (jobs d). dedupe_match fileId h j) \<and>
     \<not> (\<exists>j \<in> set (jobs d). dedupe_match fileId h j \<and> state j \<noteq> succeeded)"
    then have "checkQuery d fileId h \<noteq> None" using checkQuery_None [of d fileId h] by blast
    then obtain e where e: "checkQuery d fileId h = Some e" by blast
    from checkQuery_Some [OF e] a have f: "e \<in> set (jobs d)" "dedupe_match fileId h e"
      "state e = succeeded" by blast+
    moreover from existing [OF _ e] a f(3)
    have "out = (Resolve \<lparr>reply_jobId = job_id e, reply_status = already_completed,
                          reply_result = result e\<rparr>, d)" by simp
    ultimately show "\<exists>e \<in> set (jobs d). dedupe_match fileId h e \<and> state e = succeeded \<and>
          out = (Resolve \<lparr>reply_jobId = job_id e, reply_status = already_completed,
                          reply_result = result e\<rparr>, d)" by blast
  qed
  have c3: "checkQuery d fileId h = None \<longleftrightarrow> (\<forall>j \<in> set (jobs d). \<not> dedupe_match fileId h j)"
    by (rule checkQuery_None)
  have c4: "insert_failure env = None \<longrightarrow>
       ins = (if insert_conflict (jobs d1) new
              then Inl (SQLITE_CONSTRAINT ''UNIQUE constraint failed'')
              else Inr (d1\<lparr>jobs := jobs d1 @ [new]\<rparr>))"
    using assms(5) by (simp add: run_insert_None)
  have c5: "\<forall>d2. check_failure env = None \<and> checkQuery d fileId h = None \<and> ins = Inr d2 \<longrightarrow>
        d2 = d1\<lparr>jobs := jobs d1 @ [new]\<rparr> \<and>
        out = (Resolve \<lparr>reply_jobId = randomUUID env, reply_status = enqueued,
                        reply_result = None\<rparr>, d2)"
    using absent run_insert_Inr [of "insert_failure env" d1 new] assms(5) by simp
  have c6: "\<forall>err f. check_failure env = None \<and> checkQuery d fileId h = None \<and> ins = Inl err \<and>
         code err = Some ''SQLITE_CONSTRAINT'' \<and> reread_failure env = None \<and>
         checkQuery d3 fileId h = Some f \<longrightarrow>
        out = (Resolve \<lparr>reply_jobId = job_id f, reply_status = already_queued,
                        reply_result = None\<rparr>, d3)"
    using absent by simp
  have c7: "\<forall>err. check_failure env = None \<and> checkQuery d fileId h = None \<and> ins = Inl err \<and>
         code err = Some ''SQLITE_CONSTRAINT'' \<and> reread_failure env = None \<and>
         checkQuery d3 fileId h = None \<longrightarrow>
        out = (Reject (Error ''Constraint violation but job not found''), d3)"
    using absent by simp
  have c8: "\<forall>err. check_failure env = Some err \<longrightarrow> out = (Reject err, d)"
    using enqueue_check_error [of env _ digest now d fileId jsonData prio maxAttempts] assms(6)
    by simp
  have c9: "\<forall>err. check_failure env = None \<and> checkQuery d fileId h = None \<and> ins = Inl err \<and>
         code err \<noteq> Some ''SQLITE_CONSTRAINT'' \<longrightarrow>
        out = (Reject err, d1)"
    using absent by simp
  have c10: "\<forall>err findErr. check_failure env = None \<and> checkQuery d fileId h = None \<and> ins = Inl err \<and>
         code err = Some ''SQLITE_CONSTRAINT'' \<and> reread_failure env = Some findErr \<longrightarrow>
        out = (Reject findErr, d3)"
    using absent by simp
  from c1 c2 c3 c4 c5 c6 c7 c8 c9 c10 show ?thesis by (intro conjI)
qed

text \<open>
  Claim C7 as stated fails. At the end of the run above the key of \<^verbatim>\<open>file-1\<close> has the
  job \<^verbatim>\<open>J1\<close> in state \<^verbatim>\<open>succeeded\<close>, with its result stored, and the job \<^verbatim>\<open>J2\<close> queued; a
  third submission of the payload is answered \<^verbatim>\<open>already_queued\<close> with \<^verbatim>\<open>J2\<close>, not
  \<^verbatim>\<open>already_completed\<close> with the stored result.
\<close>

theorem enqueueJob_counterexample:
  "map (\<lambda>j. (job_id j, dedupe_key j, content_hash j, state j, result j)) (jobs late_success) =
     [(''J1'', ''file-1'', payload_hash, succeeded, Some ''SUMMARY''),
      (''J2'', ''file-1'', payload_hash, queued, None)] \<and>
   payload_hash = sha256_hex (JSON_stringify small_payload) \<and>
   enqueueJob sha256_hex (alone\<lparr>randomUUID := ''J3''\<rparr>) 1700000730000 late_success
       ''file-1'' small_payload 1 3 =
     (Resolve \<lparr>reply_jobId = ''J2'', reply_status = already_queued, reply_result = None\<rparr>,
      late_success)"
proof -
  have rows: "map (\<lambda>j. (job_id j, dedupe_key j, content_hash j, state j, result j)) (jobs late_success) =
     [(''J1'', ''file-1'', payload_hash, succeeded, Some ''SUMMARY''),
      (''J2'', ''file-1'', payload_hash, queued, None)]"
    by (simp add: jobs_late_success first_job_def second_job_def new_job_def)
  have found: "checkQuery late_success ''file-1'' (sha256_hex (JSON_stringify small_payload)) =
                 Some second_job"
    by (simp add: checkQuery_def first_in_state_def jobs_late_success first_job_def second_job_def
        new_job_def payload_hash_def)
  have "check_failure (alone\<lparr>randomUUID := ''J3''\<rparr>) = None" by (simp add: alone_def)
  from enqueue_existing [where digest = sha256_hex and jsonData = small_payload, OF this found]
  have "enqueueJob sha256_hex (alone\<lparr>randomUUID := ''J3''\<rparr>) 1700000730000 late_success
       ''file-1'' small_payload 1 3 =
     (Resolve \<lparr>reply_jobId = ''J2'', reply_status = already_queued, reply_result = None\<rparr>,
      late_success)"
    by (simp add: second_job_def new_job_def)
  with rows show ?thesis by (simp add: payload_hash_def)
qed

lemma submit_alone_empty:
  "submit (alone\<lparr>randomUUID := u\<rparr>) (one_model_store 10 200) =
     (Resolve \<lparr>reply_jobId = u, reply_status = enqueued, reply_result = None\<rparr>,
      (one_model_store 10 200)\<lparr>jobs := [new_job u ''file-1'' payload_hash
          (JSON_stringify small_payload) 1 3 1700000300000]\<rparr>)"
proof -
  have "checkQuery (one_model_store 10 200) ''file-1'' (sha256_hex (JSON_stringify small_payload)) = None"
    by (simp add: checkQuery_def first_in_state_def one_model_store_def)
  moreover have "\<not> insert_conflict (jobs (one_model_store 10 200))
     (new_job u ''file-1'' (sha256_hex (JSON_stringify small_payload))
        (JSON_stringify small_payload) 1 3 1700000300000)"
    by (simp add: insert_conflict_def one_model_store_def)
  ultimately show ?thesis
    unfolding submit_def
    by (simp add: enqueue_alone payload_hash_def one_model_store_def)
qed

theorem enqueueJob_deduplicates_witness:
  "submit (alone\<lparr>randomUUID := ''J9''\<rparr>) done_store =
     (Resolve \<lparr>reply_jobId = ''J1'', reply_status = already_completed,
               reply_result = Some ''SUMMARY''\<rparr>, done_store) \<and>
   submit (alone\<lparr>randomUUID := ''J9''\<rparr>) queued_store =
     (Resolve \<lparr>reply_jobId = ''J2'', reply_status = already_queued, reply_result = None\<rparr>,
      queued_store) \<and>
   fst (submit (alone\<lparr>randomUUID := ''J9''\<rparr>) (one_model_store 10 200)) =
     Resolve \<lparr>reply_jobId = ''J9'', reply_status = enqueued, reply_result = None\<rparr> \<and>
   map job_id (jobs (snd (submit (alone\<lparr>randomUUID := ''J9''\<rparr>) (one_model_store 10 200)))) = [''J9''] \<and>
   fst (submit racing (one_model_store 10 200)) =
     Resolve \<lparr>reply_jobId = ''J8'', reply_status = already_queued, reply_result = None\<rparr> \<and>
   map job_id (jobs (snd (submit racing (one_model_store 10 200)))) = [''J8''] \<and>
   submit (alone\<lparr>check_failure := Some SQLITE_BUSY\<rparr>) done_store = (Reject SQLITE_BUSY, done_store) \<and>
   submit (alone\<lparr>insert_failure := Some SQLITE_BUSY\<rparr>) (one_model_store 10 200) =
     (Reject SQLITE_BUSY, one_model_store 10 200) \<and>
   fst (submit (racing\<lparr>reread_failure := Some SQLITE_BUSY\<rparr>) (one_model_store 10 200)) =
     Reject SQLITE_BUSY"
proof -
  let ?env = "alone\<lparr>randomUUID := ''J9''\<rparr>"
  let ?empty = "one_model_store 10 200"
  let ?j1 = "(job_row ''J1'' ''file-1'' payload_hash 1 succeeded 1 3 1700000000)
                  \<lparr>result := Some ''SUMMARY''\<rparr>"
  let ?j2 = "job_row ''J2'' ''file-1'' payload_hash 1 queued 0 3 1700000000"
  let ?j8 = "new_job ''J8'' ''file-1'' payload_hash (JSON_stringify small_payload) 1 3 1700000300000"
  let ?racing2 = "racing\<lparr>reread_failure := Some SQLITE_BUSY\<rparr>"
  note inst = enqueueJob_deduplicates [OF refl refl refl refl refl refl]
  note inst2 = inst [where digest = sha256_hex
      and now = "1700000300000" and fileId = "''file-1''" and jsonData = small_payload
      and prio = "1" and maxAttempts = "3", folded submit_def payload_hash_def]
  have nofail: "check_failure ?env = None" "insert_failure ?env = None" "reread_failure ?env = None"
    "check_failure racing = None" "insert_failure racing = None" "reread_failure racing = None"
    "check_failure ?racing2 = None" "insert_failure ?racing2 = None"
    "reread_failure ?racing2 = Some SQLITE_BUSY"
    by (simp_all add: alone_def racing_def)
  have m1: "\<exists>j \<in> set (jobs done_store). dedupe_match ''file-1'' payload_hash j"
    "\<not> (\<exists>j \<in> set (jobs done_store). dedupe_match ''file-1'' payload_hash j \<and> state j \<noteq> succeeded)"
    by (simp_all add: done_store_def job_row_def dedupe_match_def)
  have j1: "jobs done_store = [?j1]" "job_id ?j1 = ''J1''" "result ?j1 = Some ''SUMMARY''"
    by (simp_all add: done_store_def job_row_def)
  from inst2 [where env = "?env" and d = done_store, THEN conjunct2, THEN conjunct1] nofail(1) m1
  have "\<exists>e \<in> set (jobs done_store). dedupe_match ''file-1'' payload_hash e \<and> state e = succeeded \<and>
          submit ?env done_store = (Resolve \<lparr>reply_jobId = job_id e, reply_status = already_completed,
                          reply_result = result e\<rparr>, done_store)"
    by blast
  then have a: "submit ?env done_store =
     (Resolve \<lparr>reply_jobId = ''J1'', reply_status = already_completed,
               reply_result = Some ''SUMMARY''\<rparr>, done_store)"
    unfolding j1(1) using j1(2,3) by simp
  have m2: "\<exists>j \<in> set (jobs queued_store). dedupe_match ''file-1'' payload_hash j \<and> state j \<noteq> succeeded"
    by (simp add: queued_store_def job_row_def dedupe_match_def)
  have j2: "jobs queued_store = [?j2]" "job_id ?j2 = ''J2''"
    by (simp_all add: queued_store_def job_row_def)
  from inst2 [where env = "?env" and d = queued_store, THEN conjunct1] nofail(1) m2
  have "\<exists>e \<in> set (jobs queued_store). dedupe_match ''file-1'' payload_hash e \<and> state e \<noteq> succeeded \<and>
          submit ?env queued_store = (Resolve \<lparr>reply_jobId = job_id e, reply_status = already_queued,
                          reply_result = None\<rparr>, queued_store)"
    by blast
  then have b: "submit ?env queued_store =
     (Resolve \<lparr>reply_jobId = ''J2'', reply_status = already_queued, reply_result = None\<rparr>,
      queued_store)"
    unfolding j2(1) using j2(2) by simp
  have q3: "checkQuery ?empty ''file-1'' payload_hash = None"
    by (simp add: checkQuery_def first_in_state_def one_model_store_def)
  have bi: "before_insert ?env ?empty = ?empty" by (simp add: alone_def)
  have uu: "randomUUID ?env = ''J9''" by simp
  have nc: "\<not> insert_conflict (jobs ?empty)
     (new_job ''J9'' ''file-1'' payload_hash (JSON_stringify small_payload) 1 3 1700000300000)"
    by (simp add: insert_conflict_def one_model_store_def)
  from inst2 [where env = "?env" and d = "?empty", THEN conjunct2, THEN conjunct2, THEN conjunct2, THEN conjunct1] nofail(2) nc
  have ins: "run_insert (insert_failure ?env) ?empty
               (new_job ''J9'' ''file-1'' payload_hash (JSON_stringify small_payload) 1 3 1700000300000) =
             Inr (?empty\<lparr>jobs := jobs ?empty @ [new_job ''J9'' ''file-1'' payload_hash
                (JSON_stringify small_payload) 1 3 1700000300000]\<rparr>)"
    unfolding bi uu by simp
  from inst2 [where env = "?env" and d = "?empty", THEN conjunct2, THEN conjunct2, THEN conjunct2, THEN conjunct2, THEN conjunct1, rule_format, unfolded bi uu, OF conjI [OF nofail(1) conjI [OF q3 ins]]]
  have c: "submit ?env ?empty =
     (Resolve \<lparr>reply_jobId = ''J9'', reply_status = enqueued, reply_result = None\<rparr>,
      ?empty\<lparr>jobs := jobs ?empty @ [new_job ''J9'' ''file-1'' payload_hash
          (JSON_stringify small_payload) 1 3 1700000300000]\<rparr>)"
    by simp
  have ri: "before_insert racing ?empty = ?empty\<lparr>jobs := [?j8]\<rparr>"
    "before_insert ?racing2 ?empty = ?empty\<lparr>jobs := [?j8]\<rparr>"
    by (simp_all add: racing_def submit_alone_empty)
  have rr: "before_reread racing (?empty\<lparr>jobs := [?j8]\<rparr>) = ?empty\<lparr>jobs := [?j8]\<rparr>"
    "before_reread ?racing2 (?empty\<lparr>jobs := [?j8]\<rparr>) = ?empty\<lparr>jobs := [?j8]\<rparr>"
    by (simp_all add: racing_def alone_def)
  have ru: "randomUUID racing = ''J9''" "randomUUID ?racing2 = ''J9''"
    by (simp_all add: racing_def)
  have conflict: "insert_conflict (jobs (?empty\<lparr>jobs := [?j8]\<rparr>))
     (new_job ''J9'' ''file-1'' payload_hash (JSON_stringify small_payload) 1 3 1700000300000)"
    by (simp add: insert_conflict_def new_job_def active_def same_key_def)
  have code: "code (SQLITE_CONSTRAINT ''UNIQUE constraint failed'') = Some ''SQLITE_CONSTRAINT''"
    by (simp add: SQLITE_CONSTRAINT_def)
  have found: "checkQuery (?empty\<lparr>jobs := [?j8]\<rparr>) ''file-1'' payload_hash = Some ?j8"
    by (simp add: checkQuery_def first_in_state_def new_job_def)
  from inst2 [where env = racing and d = "?empty", THEN conjunct2, THEN conjunct2, THEN conjunct2, THEN conjunct1] nofail(5) conflict
  have rins: "run_insert (insert_failure racing) (?empty\<lparr>jobs := [?j8]\<rparr>)
               (new_job ''J9'' ''file-1'' payload_hash (JSON_stringify small_payload) 1 3 1700000300000) =
             Inl (SQLITE_CONSTRAINT ''UNIQUE constraint failed'')"
    unfolding ri ru by simp
  from inst2 [where env = "?racing2" and d = "?empty", THEN conjunct2, THEN conjunct2, THEN conjunct2, THEN conjunct1] nofail(8) conflict
  have rins2: "run_insert (insert_failure ?racing2) (?empty\<lparr>jobs := [?j8]\<rparr>)
               (new_job ''J9'' ''file-1'' payload_hash (JSON_stringify small_payload) 1 3 1700000300000) =
             Inl (SQLITE_CONSTRAINT ''UNIQUE constraint failed'')"
    unfolding ri ru by simp
  from inst2 [where env = racing and d = "?empty", THEN conjunct2, THEN conjunct2, THEN conjunct2, THEN conjunct2, THEN conjunct2, THEN conjunct1, rule_format, unfolded ri rr ru,
      OF conjI [OF nofail(4) conjI [OF q3 conjI [OF rins conjI [OF code conjI [OF nofail(6) found]]]]]]
  have r: "submit racing ?empty =
     (Resolve \<lparr>reply_jobId = ''J8'', reply_status = already_queued, reply_result = None\<rparr>,
      ?empty\<lparr>jobs := [?j8]\<rparr>)"
    by (simp add: new_job_def)
  from inst2 [where env = "?racing2" and d = "?empty", THEN conjunct2, THEN conjunct2, THEN conjunct2, THEN conjunct2, THEN conjunct2, THEN conjunct2, THEN conjunct2, THEN conjunct2, THEN conjunct2, rule_format, unfolded ri rr ru,
      OF conjI [OF nofail(7) conjI [OF q3 conjI [OF rins2 conjI [OF code nofail(9)]]]]]
  have r2: "submit ?racing2 ?empty = (Reject SQLITE_BUSY, ?empty\<lparr>jobs := [?j8]\<rparr>)" .
  have f1: "check_failure (alone\<lparr>check_failure := Some SQLITE_BUSY\<rparr>) = Some SQLITE_BUSY" by simp
  from inst2 [where env = "alone\<lparr>check_failure := Some SQLITE_BUSY\<rparr>" and d = done_store, THEN conjunct2, THEN conjunct2, THEN conjunct2, THEN conjunct2, THEN conjunct2, THEN conjunct2, THEN conjunct2, THEN conjunct1, rule_format, OF f1]
  have e1: "submit (alone\<lparr>check_failure := Some SQLITE_BUSY\<rparr>) done_store =
     (Reject SQLITE_BUSY, done_store)" .
  let ?busy = "alone\<lparr>insert_failure := Some SQLITE_BUSY\<rparr>"
  have f2: "check_failure ?busy = None"
    "run_insert (insert_failure ?busy) d1 new = Inl SQLITE_BUSY"
    "code SQLITE_BUSY \<noteq> Some ''SQLITE_CONSTRAINT''" for d1 new
    by (simp_all add: alone_def SQLITE_BUSY_def run_insert_def)
  have f3: "before_insert ?busy ?empty = ?empty" by (simp add: alone_def)
  from inst2 [where env = "?busy" and d = "?empty", THEN conjunct2, THEN conjunct2, THEN conjunct2, THEN conjunct2, THEN conjunct2, THEN conjunct2, THEN conjunct2, THEN conjunct2, THEN conjunct1, rule_format,
      OF conjI [OF f2(1) conjI [OF q3 conjI [OF f2(2) f2(3)]]]]
  have e2: "submit ?busy ?empty = (Reject SQLITE_BUSY, ?empty)" unfolding f3 .
  have none: "jobs ?empty = []" by (simp add: one_model_store_def)
  from a b c r r2 e1 e2 show ?thesis by (simp add: new_job_def none)
qed

section \<open>Properties of the content hash\<close>

lemma stored_hash_eq: "stored_hash payload = sha256_hex (JSON_stringify payload)"
  by (simp add: stored_hash_def enqueueJob_def alone_def checkQuery_def first_in_state_def
      one_model_store_def generateContentHash_def run_insert_def insert_conflict_def Let_def
      new_job_def)

lemma decimal_digit_no_newline: "v < 10 \<Longrightarrow> decimal_digit v \<noteq> CHR 0x0A"
proof -
  assume "v < 10"
  then have "v \<in> {0, 1, 2, 3, 4, 5, 6, 7, 8, 9}" by simp arith
  then show ?thesis by (auto simp: decimal_digit_def)
qed

lemma decimal_no_newline: "CHR 0x0A \<notin> set (decimal n)"
proof (induction n rule: decimal.induct)
  case (1 n)
  show ?case
  proof (cases "n < 10")
    case True
    then show ?thesis
      using decimal_digit_no_newline [of n] by (subst decimal.simps) auto
  next
    case False
    have "n mod 10 < 10" by simp
    with False 1 show ?thesis
      using decimal_digit_no_newline [of "n mod 10"] by (subst decimal.simps) auto
  qed
qed

lemma take_no_newline: "CHR 0x0A \<notin> set xs \<Longrightarrow> CHR 0x0A \<notin> set (take n xs)"
  by (meson in_set_takeD)

lemma drop_no_newline: "CHR 0x0A \<notin> set xs \<Longrightarrow> CHR 0x0A \<notin> set (drop n xs)"
  by (meson in_set_dropD)

lemma exponent_text_no_newline: "CHR 0x0A \<notin> set (exponent_text e)"
  by (simp add: exponent_text_def decimal_no_newline)

lemma number_text_no_newline: "CHR 0x0A \<notin> set (number_text x)"
  using decimal_no_newline [of "strip_zeros (digits x)"]
    take_no_newline [of "decimal (strip_zeros (digits x))"]
    drop_no_newline [of "decimal (strip_zeros (digits x))"]
    exponent_text_no_newline [of "point x - 1"]
  by (simp add: number_text_def Let_def)

lemma hexdigit_no_newline: "v < 16 \<Longrightarrow> hexdigit v \<noteq> CHR 0x0A"
proof -
  assume "v < 16"
  then have "v \<in> {0, 1, 2, 3, 4, 5, 6, 7, 8, 9, 10, 11, 12, 13, 14, 15}" by simp arith
  then show ?thesis by (auto simp: hexdigit_def)
qed

lemma escape_char_no_newline: "CHR 0x0A \<notin> set (escape_char c)"
proof -
  have a: "(of_char c :: nat) mod 16 < 16" by simp
  have b: "(of_char c :: nat) < 32 \<Longrightarrow> (of_char c :: nat) div 16 < 16" by simp
  show ?thesis
    using hexdigit_no_newline [OF a] hexdigit_no_newline [OF b]
    by (auto simp: escape_char_def)
qed

lemma quote_no_newline: "CHR 0x0A \<notin> set (quote s)"
  using escape_char_no_newline by (auto simp: quote_def)

lemma join_no_newline:
  "CHR 0x0A \<notin> set sep \<Longrightarrow> \<forall>x \<in> set xs. CHR 0x0A \<notin> set x \<Longrightarrow> CHR 0x0A \<notin> set (join sep xs)"
  by (induction sep xs rule: join.induct) auto

lemma JSON_stringify_no_newline: "CHR 0x0A \<notin> set (JSON_stringify v)"
proof (induction v rule: JSON_stringify.induct)
  case 1
  then show ?case by simp
next
  case (2 b)
  then show ?case by simp
next
  case (3 i)
  then show ?case by (simp add: number_text_no_newline)
next
  case (4 s)
  then show ?case by (simp add: quote_no_newline)
next
  case (5 vs)
  then have "CHR 0x0A \<notin> set (join '','' (map JSON_stringify vs))"
    by (intro join_no_newline) auto
  then show ?case by simp
next
  case (6 kvs)
  then have "\<forall>x \<in> set (map (\<lambda>kv. quote (fst kv) @ '':'' @ JSON_stringify (snd kv)) kvs).
               CHR 0x0A \<notin> set x"
    using quote_no_newline by auto
  then have "CHR 0x0A \<notin> set (join '','' (map (\<lambda>kv. quote (fst kv) @ '':'' @ JSON_stringify (snd kv)) kvs))"
    by (intro join_no_newline) auto
  then show ?case by simp
qed

text \<open>
  Claim C3, as the code has it. The row that \<^verbatim>\<open>enqueueJob\<close> inserts carries, as its
  \<^verbatim>\<open>content_hash\<close>, the digest of \<^verbatim>\<open>JSON.stringify(payload)\<close>, and that text as its
  \<^verbatim>\<open>payload_json\<close>; the text is compact and holds no line feed. (The keys of an object stay
  in the order in which the payload has them.)
\<close>

theorem enqueueJob_content_hash:
  assumes "enqueueJob digest env now d fileId jsonData prio maxAttempts = (Resolve r, d')"
    and "reply_status r = enqueued"
  shows "jobs d' = jobs (before_insert env d) @
           [new_job (randomUUID env) fileId (digest (JSON_stringify jsonData))
              (JSON_stringify jsonData) prio maxAttempts now] \<and>
         content_hash (last (jobs d')) = digest (JSON_stringify jsonData) \<and>
         payload_json (last (jobs d')) = JSON_stringify jsonData \<and>
         CHR 0x0A \<notin> set (JSON_stringify jsonData)"
proof -
  from assms have "jobs d' = jobs (before_insert env d) @
           [new_job (randomUUID env) fileId (digest (JSON_stringify jsonData))
              (JSON_stringify jsonData) prio maxAttempts now]"
    by (auto simp: enqueueJob_def Let_def generateContentHash_def run_insert_def
        split: option.splits if_splits sum.splits)
  then show ?thesis
    by (simp add: new_job_def JSON_stringify_no_newline)
qed

lemma stringify_small_payload:
  "JSON_stringify small_payload = ''{\"blocks\":[{\"content\":\"hello\"}]}''"
  by code_simp

lemma replicate_three: "replicate 3 c = [c, c, c]"
  by (simp add: numeral_3_eq_3)

text \<open>The numbers print as \<^verbatim>\<open>JSON.stringify\<close> prints them.\<close>

lemma stringify_numbers_payload:
  "JSON_stringify numbers_payload = ''[9223372036854776000,0.5,-1.5e-7,1e+21]''"
  by (simp add: numbers_payload_def number_text_def strip_zeros.simps decimal.simps
      decimal_digit_def exponent_text_def replicate_three)

theorem enqueueJob_content_hash_witness:
  "fst (submit (alone\<lparr>randomUUID := ''J9''\<rparr>) (one_model_store 10 200)) =
     Resolve \<lparr>reply_jobId = ''J9'', reply_status = enqueued, reply_result = None\<rparr> \<and>
   content_hash (last (jobs (snd (submit (alone\<lparr>randomUUID := ''J9''\<rparr>) (one_model_store 10 200)))))
     = sha256_hex (JSON_stringify small_payload) \<and>
   JSON_stringify small_payload = ''{\"blocks\":[{\"content\":\"hello\"}]}'' \<and>
   CHR 0x0A \<notin> set (JSON_stringify small_payload)"
proof -
  let ?env = "alone\<lparr>randomUUID := ''J9''\<rparr>"
  let ?r = "\<lparr>reply_jobId = ''J9'', reply_status = enqueued, reply_result = None\<rparr>"
  let ?d' = "(one_model_store 10 200)\<lparr>jobs := [new_job ''J9'' ''file-1'' payload_hash
          (JSON_stringify small_payload) 1 3 1700000300000]\<rparr>"
  have sub: "submit ?env (one_model_store 10 200) = (Resolve ?r, ?d')"
    by (rule submit_alone_empty)
  then have run: "enqueueJob sha256_hex ?env 1700000300000 (one_model_store 10 200) ''file-1''
               small_payload 1 3 = (Resolve ?r, ?d')"
    by (simp only: submit_def)
  have st: "reply_status ?r = enqueued" by simp
  from enqueueJob_content_hash [OF run st]
  have "content_hash (last (jobs ?d')) = sha256_hex (JSON_stringify small_payload)"
    and "CHR 0x0A \<notin> set (JSON_stringify small_payload)" by blast+
  with sub stringify_small_payload show ?thesis by simp
qed

text \<open>
  Claim C3 as stated fails: the objects \<^verbatim>\<open>{"b":2,"a":1}\<close> and \<^verbatim>\<open>{"a":1,"b":2}\<close> have the
  same canonical form, yet the hashes stored for them differ, and the hash stored for the
  first is not the digest of its canonical form.
\<close>

theorem content_hash_counterexample:
  "sort_keys b_then_a = sort_keys a_then_b \<and>
   canonical_json b_then_a = canonical_json a_then_b \<and>
   stored_hash b_then_a = ''3fb75453225c732a76b7899ea2096dda1455189c89817239732182f73fe5a09f'' \<and>
   stored_hash a_then_b = ''43258cff783fe7036d8a43033f830adfc60ec037382473548ac742b888292777'' \<and>
   stored_hash b_then_a \<noteq> stored_hash a_then_b \<and>
   stored_hash b_then_a \<noteq> sha256_hex (canonical_json b_then_a)"
proof -
  have c: "sort_keys b_then_a = sort_keys a_then_b"
    by (simp add: b_then_a_def a_then_b_def)
  have s: "sort_keys a_then_b = a_then_b"
    by (simp add: a_then_b_def)
  have h1: "sha256_hex (JSON_stringify b_then_a) =
     ''3fb75453225c732a76b7899ea2096dda1455189c89817239732182f73fe5a09f''"
    by code_simp
  have h2: "sha256_hex (JSON_stringify a_then_b) =
     ''43258cff783fe7036d8a43033f830adfc60ec037382473548ac742b888292777''"
    by code_simp
  from c s h1 h2 show ?thesis
    by (simp add: stored_hash_eq canonical_json_def)
qed

end
